theory Spec2Isabelle
  imports Main "HOL-Library.Sublist"
begin

section \<open>Strings of the Go standard library\<close>

text \<open>
  Go strings are byte sequences; they are modelled as \<^typ>\<open>string\<close> (a list of bytes).
  \<open>strings.TrimSpace\<close> and \<open>strings.ToLower\<close> are modelled on the bytes below 0x80, the
  path the library takes for ASCII input: the white space is the library's \<open>asciiSpace\<close>
  table (tab, line feed, vertical tab, form feed, carriage return, space) and only the
  letters A to Z change case. Bytes from 0x80 on are left as they are.
\<close>

definition asciiSpace :: "char \<Rightarrow> bool" where
  "asciiSpace c \<longleftrightarrow> c \<in> set [CHR 0x09, CHR 0x0A, CHR 0x0B, CHR 0x0C, CHR 0x0D, CHR 0x20]"

definition TrimSpace :: "string \<Rightarrow> string" where
  "TrimSpace s = rev (dropWhile asciiSpace (rev (dropWhile asciiSpace s)))"

definition toLowerByte :: "char \<Rightarrow> char" where
  "toLowerByte c =
     (let n = (of_char c :: nat) in if 65 \<le> n \<and> n \<le> 90 then char_of (n + 32) else c)"

definition ToLower :: "string \<Rightarrow> string" where
  "ToLower s = map toLowerByte s"

text \<open>The verbs of \<open>fmt.Sprintf\<close> the program uses: \<open>%d\<close> on an int and \<open>%v\<close> on a bool.\<close>

fun fmtNat :: "nat \<Rightarrow> string" where
  "fmtNat n =
     (if n < 10 then [''0123456789'' ! n]
      else fmtNat (n div 10) @ [''0123456789'' ! (n mod 10)])"

declare fmtNat.simps [simp del]

definition fmtInt :: "int \<Rightarrow> string" where
  "fmtInt i = (if i < 0 then CHR ''-'' # fmtNat (nat (- i)) else fmtNat (nat i))"

definition fmtBool :: "bool \<Rightarrow> string" where
  "fmtBool b = (if b then ''true'' else ''false'')"

section \<open>Connection configuration\<close>

text \<open>\<open>SSHConfig\<close> of internal/connection/types.go.\<close>

record SSHConfig =
  sshHost :: string
  sshPort :: int
  sshUser :: string
  sshPassword :: string
  sshKeyPath :: string

text \<open>
  \<open>ConnectionConfig\<close> as app.go declares it. The struct of internal/connection/types.go has
  the same eight fields and further ones; it is the extension \<open>ConnectionConfigExt\<close> below.
\<close>

record ConnectionConfig =
  Type :: string
  Host :: string
  Port :: int
  User :: string
  Password :: string
  Database :: string
  UseSSH :: bool
  SSH :: SSHConfig

section \<open>The connection-cache key (app.go)\<close>

text \<open>
  \<open>fmt.Sprintf("%s|%s|%s:%d|%s|%s|%v", config.Type, config.User, config.Host, config.Port,
  config.Database, config.SSH.Host, config.UseSSH)\<close>
\<close>

definition getCacheKey :: "'a ConnectionConfig_scheme \<Rightarrow> string" where
  "getCacheKey config =
     Type config @ ''|'' @ User config @ ''|'' @ Host config @ '':'' @ fmtInt (Port config)
       @ ''|'' @ Database config @ ''|'' @ sshHost (SSH config) @ ''|'' @ fmtBool (UseSSH config)"

section \<open>The driver registry (internal/db/database.go)\<close>

text \<open>
  The engine bindings: the struct types that implement \<open>Database\<close> (those the registry
  constructs and those the agent providers construct). A factory \<open>func() Database\<close> is
  modelled by the binding it returns a fresh instance of.
\<close>

datatype binding =
    MySQLDB
  | PostgresDB
  | OracleDB
  | CustomDB
  | SQLiteDB
  | OptionalDriverAgentDB string
  | DirosDB
  | DuckDB
  | MariaDB
  | MongoDB
  | SqlServerDB
  | HighGoDB
  | KingbaseDB
  | TDengineDB
  | SphinxDB
  | DamengDB
  | VastbaseDB

type_synonym databaseFactory = binding

type_synonym registry = "string \<rightharpoonup> databaseFactory"

definition normalizeDatabaseType :: "string \<Rightarrow> string" where
  "normalizeDatabaseType dbType =
     (let normalized = ToLower (TrimSpace dbType) in
      if normalized = ''doris'' then ''diros''
      else if normalized = ''postgresql'' then ''postgres''
      else normalized)"

text \<open>\<open>normalizeRuntimeDriverType\<close> of the driver-runtime layer.\<close>

definition normalizeRuntimeDriverType :: "string \<Rightarrow> string" where
  "normalizeRuntimeDriverType driverType =
     (let normalized = ToLower (TrimSpace driverType) in
      if normalized = ''doris'' then ''diros''
      else if normalized = ''postgresql'' then ''postgres''
      else normalized)"

text \<open>The package-level map \<open>databaseFactories\<close> as its literal initialises it.\<close>

definition databaseFactories :: registry where
  "databaseFactories =
     [''mysql'' \<mapsto> MySQLDB, ''postgres'' \<mapsto> PostgresDB, ''oracle'' \<mapsto> OracleDB,
      ''custom'' \<mapsto> CustomDB]"

text \<open>
  \<open>registerDatabaseFactory(factory, dbTypes...)\<close>; the factory is \<open>None\<close> when the
  caller passes nil.
\<close>

fun registerLoop :: "databaseFactory \<Rightarrow> string list \<Rightarrow> registry \<Rightarrow> registry" where
  "registerLoop factory [] reg = reg"
| "registerLoop factory (dbType # rest) reg =
     (let normalized = normalizeDatabaseType dbType in
      if normalized = [] then registerLoop factory rest reg
      else registerLoop factory rest (reg(normalized \<mapsto> factory)))"

definition registerDatabaseFactory ::
  "databaseFactory option \<Rightarrow> string list \<Rightarrow> registry \<Rightarrow> registry" where
  "registerDatabaseFactory factory dbTypes reg =
     (case factory of
        None \<Rightarrow> reg
      | Some f \<Rightarrow> if length dbTypes = 0 then reg else registerLoop f dbTypes reg)"

definition newOptionalDriverAgentDatabase :: "string \<Rightarrow> databaseFactory option" where
  "newOptionalDriverAgentDatabase driverType =
     Some (OptionalDriverAgentDB (normalizeRuntimeDriverType driverType))"

text \<open>\<open>registerOptionalDatabaseFactories\<close> of the full build, run by \<open>init\<close>.\<close>

definition registerOptionalDatabaseFactories :: "registry \<Rightarrow> registry" where
  "registerOptionalDatabaseFactories =
     registerDatabaseFactory (newOptionalDriverAgentDatabase ''tdengine'') [''tdengine'']
     \<circ> registerDatabaseFactory (newOptionalDriverAgentDatabase ''mongodb'') [''mongodb'']
     \<circ> registerDatabaseFactory (newOptionalDriverAgentDatabase ''vastbase'') [''vastbase'']
     \<circ> registerDatabaseFactory (newOptionalDriverAgentDatabase ''highgo'') [''highgo'']
     \<circ> registerDatabaseFactory (newOptionalDriverAgentDatabase ''kingbase'') [''kingbase'']
     \<circ> registerDatabaseFactory (newOptionalDriverAgentDatabase ''dameng'') [''dameng'']
     \<circ> registerDatabaseFactory (newOptionalDriverAgentDatabase ''duckdb'') [''duckdb'']
     \<circ> registerDatabaseFactory (newOptionalDriverAgentDatabase ''sqlite'') [''sqlite'']
     \<circ> registerDatabaseFactory (newOptionalDriverAgentDatabase ''sqlserver'') [''sqlserver'']
     \<circ> registerDatabaseFactory (newOptionalDriverAgentDatabase ''sphinx'') [''sphinx'']
     \<circ> registerDatabaseFactory (newOptionalDriverAgentDatabase ''diros'') [''diros'', ''doris'']
     \<circ> registerDatabaseFactory (newOptionalDriverAgentDatabase ''mariadb'') [''mariadb'']"

definition fullRegistry :: registry where
  "fullRegistry = registerOptionalDatabaseFactories databaseFactories"

text \<open>
  \<open>NewDatabase\<close> of internal/db/database.go, with the registry it reads as an argument.
  \<open>Inl\<close> carries the text of the returned error (the Database is nil then), \<open>Inr\<close> the
  binding the factory constructs (the error is nil then).
\<close>

definition NewDatabase :: "registry \<Rightarrow> string \<Rightarrow> string + binding" where
  "NewDatabase reg dbType =
     (let normalized = normalizeDatabaseType dbType;
          normalized = (if normalized = [] then ''mysql'' else normalized)
      in case reg normalized of
           None \<Rightarrow> Inl (''unsupported database type: '' @ dbType)
         | Some factory \<Rightarrow> Inr factory)"


text \<open>
  \<open>NewDatabase\<close> of package main (the one app.go calls): a switch on the raw type string.
\<close>

definition NewDatabase_main :: "string \<Rightarrow> string + binding" where
  "NewDatabase_main dbType =
     (if dbType = ''mysql'' then Inr MySQLDB
      else if dbType = ''postgres'' then Inr PostgresDB
      else if dbType = ''sqlite'' then Inr SQLiteDB
      else if dbType = [] then Inr MySQLDB
      else Inl (''unsupported database type: '' @ dbType))"

section \<open>Database objects and the engines behind them\<close>

text \<open>
  A non-nil value of the interface type \<open>Database\<close> is a dynamic type together with a
  pointer; two interface values are the same object when both agree. A nil interface value
  is \<open>None\<close> of \<open>Database option\<close>.
\<close>

type_synonym ref = nat

type_synonym Database = "binding \<times> ref"

text \<open>\<open>UpdateRow\<close> and \<open>ChangeSet\<close>; \<open>'v\<close> stands for \<open>interface{}\<close> cell values.\<close>

record 'v UpdateRow =
  Keys :: "string \<rightharpoonup> 'v"
  Values :: "string \<rightharpoonup> 'v"

record 'v ChangeSet =
  Inserts :: "(string \<rightharpoonup> 'v) list"
  Updates :: "'v UpdateRow list"
  Deletes :: "(string \<rightharpoonup> 'v) list"

text \<open>
  A method call on a Database object: the methods of the interfaces \<open>Database\<close> and
  \<open>BatchApplier\<close>, with the receiver first. \<open>'c\<close> is the type of connection configs.
\<close>

datatype ('c, 'v) call =
    ConnectCall Database 'c
  | CloseCall Database
  | PingCall Database
  | QueryCall Database string
  | ExecCall Database string
  | GetDatabasesCall Database
  | GetTablesCall Database string
  | GetCreateStatementCall Database string string
  | GetColumnsCall Database string string
  | GetAllColumnsCall Database string
  | GetIndexesCall Database string string
  | GetForeignKeysCall Database string string
  | GetTriggersCall Database string string
  | ApplyChangesCall Database string "'v ChangeSet"

text \<open>
  The engines are outside the program. What a call returns is given by the environment as a
  function of the calls made so far and the call itself: its error (\<open>None\<close> is a nil
  error), and for the calls that return them its data (of an opaque type \<open>'d\<close>), its column
  names and its rows-affected count. \<open>implementsBatchApplier\<close> says whether the method
  set of a binding contains \<open>ApplyChanges\<close>, which is what the type assertions test.
\<close>

record ('c, 'v, 'd) engine =
  errOf :: "('c, 'v) call list \<Rightarrow> ('c, 'v) call \<Rightarrow> string option"
  dataOf :: "('c, 'v) call list \<Rightarrow> ('c, 'v) call \<Rightarrow> 'd"
  fieldsOf :: "('c, 'v) call list \<Rightarrow> ('c, 'v) call \<Rightarrow> string list"
  rowsAffectedOf :: "('c, 'v) call list \<Rightarrow> ('c, 'v) call \<Rightarrow> int"
  implementsBatchApplier :: "binding \<Rightarrow> bool"

text \<open>
  The world a process acts on: how many Database objects it has allocated and the log of
  the method calls it has made on them, oldest first.
\<close>

record ('c, 'v) world =
  allocated :: nat
  calls :: "('c, 'v) call list"

definition perform :: "('c, 'v) call \<Rightarrow> ('c, 'v, 'z) world_scheme \<Rightarrow> ('c, 'v, 'z) world_scheme" where
  "perform c w = w\<lparr>calls := calls w @ [c]\<rparr>"

definition construct :: "binding \<Rightarrow> ('c, 'v, 'z) world_scheme \<Rightarrow> Database \<times> ('c, 'v, 'z) world_scheme" where
  "construct b w = ((b, allocated w), w\<lparr>allocated := Suc (allocated w)\<rparr>)"

section \<open>The connection cache (app.go)\<close>

text \<open>
  The struct \<open>App\<close>: the cache and its mutex (\<open>mu\<close> is True while the mutex is held).
\<close>

record ('c, 'v) App = "('c, 'v) world" +
  dbCache :: "string \<rightharpoonup> Database"
  mu :: bool

text \<open>
  \<open>getDatabase\<close>. \<open>a.mu.Lock()\<close> on a held mutex never returns in a sequential run:
  the result is \<open>None\<close> then. The deferred Unlock runs on every return. \<open>hit\<close> is the
  early return of the cache-hit branch.
\<close>

definition getDatabase ::
  "(ConnectionConfig, 'v, 'd) engine \<Rightarrow> ConnectionConfig \<Rightarrow> (ConnectionConfig, 'v) App
     \<Rightarrow> ((string + Database) \<times> (ConnectionConfig, 'v) App) option" where
  "getDatabase env config a0 =
     (let key = getCacheKey config in
      if mu a0 then None
      else
        let a = a0\<lparr>mu := True\<rparr>;
            (hit, a) =
              (case dbCache a key of
                 None \<Rightarrow> (None, a)
               | Some db \<Rightarrow>
                   (case errOf env (calls a) (PingCall db) of
                      None \<Rightarrow> (Some db, perform (PingCall db) a)
                    | Some err \<Rightarrow>
                        let a = perform (PingCall db) a;
                            a = perform (CloseCall db) a
                        in (None, a\<lparr>dbCache := (dbCache a)(key := None)\<rparr>)));
            (res, a) =
              (case hit of
                 Some db \<Rightarrow> (Inr db, a)
               | None \<Rightarrow>
                   (case NewDatabase_main (Type config) of
                      Inl err \<Rightarrow> (Inl err, a)
                    | Inr b \<Rightarrow>
                        let (db, a) = construct b a in
                        (case errOf env (calls a) (ConnectCall db config) of
                           Some err \<Rightarrow> (Inl err, perform (ConnectCall db config) a)
                         | None \<Rightarrow>
                             let a = perform (ConnectCall db config) a
                             in (Inr db, a\<lparr>dbCache := (dbCache a)(key \<mapsto> db)\<rparr>))))
        in Some (res, a\<lparr>mu := False\<rparr>))"

text \<open>\<open>QueryResult\<close> of app.go.\<close>

record 'd QueryResult =
  Success :: bool
  Message :: string
  Data :: "'d option"
  Fields :: "string list"

text \<open>\<open>App.ApplyChanges\<close>.\<close>

definition App_ApplyChanges ::
  "(ConnectionConfig, 'v, 'd) engine \<Rightarrow> ConnectionConfig \<Rightarrow> string \<Rightarrow> string \<Rightarrow> 'v ChangeSet
     \<Rightarrow> (ConnectionConfig, 'v) App \<Rightarrow> ('d QueryResult \<times> (ConnectionConfig, 'v) App) option" where
  "App_ApplyChanges env config dbName tableName changes a =
     (let runConfig = (if dbName \<noteq> [] then config\<lparr>Database := dbName\<rparr> else config) in
      case getDatabase env runConfig a of
        None \<Rightarrow> None
      | Some (Inl err, a) \<Rightarrow>
          Some (\<lparr>Success = False, Message = err, Data = None, Fields = []\<rparr>, a)
      | Some (Inr db, a) \<Rightarrow>
          if implementsBatchApplier env (fst db) then
            (case errOf env (calls a) (ApplyChangesCall db tableName changes) of
               Some err \<Rightarrow>
                 Some (\<lparr>Success = False, Message = err, Data = None, Fields = []\<rparr>,
                       perform (ApplyChangesCall db tableName changes) a)
             | None \<Rightarrow>
                 Some (\<lparr>Success = True, Message = ''Changes applied successfully'',
                         Data = None, Fields = []\<rparr>,
                       perform (ApplyChangesCall db tableName changes) a))
          else
            Some (\<lparr>Success = False,
                    Message = ''Batch updates not supported for this database type'',
                    Data = None, Fields = []\<rparr>, a))"

section \<open>The agent worker process (cmd/optional-driver-agent)\<close>

text \<open>
  \<open>agentRequest\<close> and \<open>agentResponse\<close>. The pointer fields \<open>Config\<close> and \<open>Changes\<close> are
  options (\<open>None\<close> is nil); \<open>Data\<close> is \<open>None\<close> while the interface value is nil; a nil
  slice is the empty list. The int64 fields are only copied, never computed with.
\<close>

record ('c, 'v) agentRequest =
  ID :: int
  Method :: string
  Config :: "'c option"
  Query :: string
  DBName :: string
  TableName :: string
  Changes :: "'v ChangeSet option"

record 'd agentResponse =
  ID :: int
  Success :: bool
  Error :: string
  Data :: "'d option"
  Fields :: "string list"
  RowsAffected :: int

definition agentMethodConnect :: string where "agentMethodConnect = ''connect''"
definition agentMethodClose :: string where "agentMethodClose = ''close''"
definition agentMethodPing :: string where "agentMethodPing = ''ping''"
definition agentMethodQuery :: string where "agentMethodQuery = ''query''"
definition agentMethodExec :: string where "agentMethodExec = ''exec''"
definition agentMethodGetDatabases :: string where "agentMethodGetDatabases = ''getDatabases''"
definition agentMethodGetTables :: string where "agentMethodGetTables = ''getTables''"
definition agentMethodGetCreateStmt :: string where "agentMethodGetCreateStmt = ''getCreateStatement''"
definition agentMethodGetColumns :: string where "agentMethodGetColumns = ''getColumns''"
definition agentMethodGetAllColumns :: string where "agentMethodGetAllColumns = ''getAllColumns''"
definition agentMethodGetIndexes :: string where "agentMethodGetIndexes = ''getIndexes''"
definition agentMethodGetForeignKey :: string where "agentMethodGetForeignKey = ''getForeignKeys''"
definition agentMethodGetTriggers :: string where "agentMethodGetTriggers = ''getTriggers''"
definition agentMethodApplyChanges :: string where "agentMethodApplyChanges = ''applyChanges''"

text \<open>
  The error texts of the worker that are not ASCII, as the UTF-8 bytes of the source's
  literals. In English: "connection config is empty", "driver agent initialisation failed",
  "change set is empty", "the current driver does not support ApplyChanges",
  "unsupported method", "parsing the request failed:" (ending in a full-width colon).
\<close>

definition textConfigEmpty :: string where
  "textConfigEmpty =
     [CHR 0xE8, CHR 0xBF, CHR 0x9E, CHR 0xE6, CHR 0x8E, CHR 0xA5, CHR 0xE9, CHR 0x85, CHR 0x8D,
      CHR 0xE7, CHR 0xBD, CHR 0xAE, CHR 0xE4, CHR 0xB8, CHR 0xBA, CHR 0xE7, CHR 0xA9, CHR 0xBA]"

definition textFactoryFailed :: string where
  "textFactoryFailed =
     [CHR 0xE9, CHR 0xA9, CHR 0xB1, CHR 0xE5, CHR 0x8A, CHR 0xA8, CHR 0xE4, CHR 0xBB, CHR 0xA3,
      CHR 0xE7, CHR 0x90, CHR 0x86, CHR 0xE5, CHR 0x88, CHR 0x9D, CHR 0xE5, CHR 0xA7, CHR 0x8B,
      CHR 0xE5, CHR 0x8C, CHR 0x96, CHR 0xE5, CHR 0xA4, CHR 0xB1, CHR 0xE8, CHR 0xB4, CHR 0xA5]"

definition textChangesEmpty :: string where
  "textChangesEmpty =
     [CHR 0xE5, CHR 0x8F, CHR 0x98, CHR 0xE6, CHR 0x9B, CHR 0xB4, CHR 0xE9, CHR 0x9B, CHR 0x86,
      CHR 0xE4, CHR 0xB8, CHR 0xBA, CHR 0xE7, CHR 0xA9, CHR 0xBA]"

definition textApplyChangesUnsupported :: string where
  "textApplyChangesUnsupported =
     [CHR 0xE5, CHR 0xBD, CHR 0x93, CHR 0xE5, CHR 0x89, CHR 0x8D, CHR 0xE9, CHR 0xA9, CHR 0xB1,
      CHR 0xE5, CHR 0x8A, CHR 0xA8, CHR 0xE4, CHR 0xB8, CHR 0x8D, CHR 0xE6, CHR 0x94, CHR 0xAF,
      CHR 0xE6, CHR 0x8C, CHR 0x81] @ '' ApplyChanges''"

definition textMethodUnsupported :: string where
  "textMethodUnsupported =
     [CHR 0xE4, CHR 0xB8, CHR 0x8D, CHR 0xE6, CHR 0x94, CHR 0xAF, CHR 0xE6, CHR 0x8C, CHR 0x81,
      CHR 0xE7, CHR 0x9A, CHR 0x84, CHR 0xE6, CHR 0x96, CHR 0xB9, CHR 0xE6, CHR 0xB3, CHR 0x95]"


text \<open>
  What the worker's build and its pipes contribute: the package variables \<open>agentDriverType\<close>
  and \<open>agentDatabaseFactory\<close> (\<open>None\<close>: the variable is nil; \<open>Some None\<close>: the function
  returns a nil Database; \<open>Some (Some b)\<close>: it returns a fresh \<open>b\<close>), \<open>json.Unmarshal\<close> on a
  request line (the request as far as it was decoded, and the error), and whether
  \<open>writeResponse\<close> fails on a response, given the responses written before it.
\<close>

record ('c, 'v, 'd) agentEnv = "('c, 'v, 'd) engine" +
  agentDriverType :: string
  agentDatabaseFactory :: "binding option option"
  Unmarshal :: "string \<Rightarrow> ('c, 'v) agentRequest \<times> string option"
  writeErr :: "'d agentResponse list \<Rightarrow> 'd agentResponse \<Rightarrow> string option"

text \<open>
  The state of the worker: the variable \<open>inst\<close> of \<open>main\<close>, the responses written to
  standard output, and the world.
\<close>

record ('c, 'v, 'd) agent = "('c, 'v) world" +
  inst :: "Database option"
  stdout :: "'d agentResponse list"

definition fail :: "'d agentResponse \<Rightarrow> string \<Rightarrow> 'd agentResponse" where
  "fail resp errText = resp\<lparr>Success := False, Error := TrimSpace errText\<rparr>"

text \<open>
  One method call on the open connection, as each case of the second switch makes it: the
  error decides between \<open>fail\<close> and the response that \<open>fill\<close> completes.
\<close>

definition invoke ::
  "('c, 'v, 'd, 'y) agentEnv_scheme \<Rightarrow> ('c, 'v) call
     \<Rightarrow> (('c, 'v) call list \<Rightarrow> 'd agentResponse \<Rightarrow> 'd agentResponse)
     \<Rightarrow> 'd agentResponse \<Rightarrow> ('c, 'v, 'd) agent \<Rightarrow> 'd agentResponse \<times> ('c, 'v, 'd) agent" where
  "invoke env c fill resp s =
     (case errOf env (calls s) c of
        Some err \<Rightarrow> (fail resp err, perform c s)
      | None \<Rightarrow> (fill (calls s) resp, perform c s))"

text \<open>
  \<open>handleRequest\<close>. Calling the nil function variable \<open>agentDatabaseFactory\<close> panics: the
  result is \<open>None\<close> then (\<open>main\<close> checks the variable before it enters its loop).
\<close>

definition handleRequest ::
  "('c, 'v, 'd, 'y) agentEnv_scheme \<Rightarrow> ('c, 'v, 'd) agent \<Rightarrow> ('c, 'v) agentRequest
     \<Rightarrow> ('d agentResponse \<times> ('c, 'v, 'd) agent) option" where
  "handleRequest env s req =
     (let resp = \<lparr>agentResponse.ID = agentRequest.ID req, Success = True, Error = [],
                  Data = None, Fields = [], RowsAffected = 0\<rparr>;
          method = TrimSpace (Method req);
          withData = (\<lambda>c h r. r\<lparr>Data := Some (dataOf env h c)\<rparr>)
      in
      if method = agentMethodConnect then
        (case Config req of
           None \<Rightarrow> Some (fail resp textConfigEmpty, s)
         | Some config \<Rightarrow>
             let s = (case inst s of Some old \<Rightarrow> perform (CloseCall old) s | None \<Rightarrow> s) in
             (case agentDatabaseFactory env of
                None \<Rightarrow> None
              | Some None \<Rightarrow> Some (fail resp textFactoryFailed, s)
              | Some (Some b) \<Rightarrow>
                  let (next, s) = construct b s in
                  (case errOf env (calls s) (ConnectCall next config) of
                     Some err \<Rightarrow> Some (fail resp err, perform (ConnectCall next config) s)
                   | None \<Rightarrow>
                       Some (resp, (perform (ConnectCall next config) s)\<lparr>inst := Some next\<rparr>))))
      else if method = agentMethodClose then
        (case inst s of
           None \<Rightarrow> Some (resp, s)
         | Some cur \<Rightarrow>
             (case errOf env (calls s) (CloseCall cur) of
                Some err \<Rightarrow> Some (fail resp err, perform (CloseCall cur) s)
              | None \<Rightarrow> Some (resp, (perform (CloseCall cur) s)\<lparr>inst := None\<rparr>)))
      else
        (case inst s of
           None \<Rightarrow> Some (fail resp ''connection not open'', s)
         | Some cur \<Rightarrow>
             Some (
             if method = agentMethodPing then
               invoke env (PingCall cur) (\<lambda>h r. r) resp s
             else if method = agentMethodQuery then
               (let c = QueryCall cur (Query req) in
                invoke env c (\<lambda>h r. r\<lparr>Data := Some (dataOf env h c), Fields := fieldsOf env h c\<rparr>)
                  resp s)
             else if method = agentMethodExec then
               (let c = ExecCall cur (Query req) in
                invoke env c (\<lambda>h r. r\<lparr>RowsAffected := rowsAffectedOf env h c\<rparr>) resp s)
             else if method = agentMethodGetDatabases then
               (let c = GetDatabasesCall cur in invoke env c (withData c) resp s)
             else if method = agentMethodGetTables then
               (let c = GetTablesCall cur (DBName req) in invoke env c (withData c) resp s)
             else if method = agentMethodGetCreateStmt then
               (let c = GetCreateStatementCall cur (DBName req) (TableName req)
                in invoke env c (withData c) resp s)
             else if method = agentMethodGetColumns then
               (let c = GetColumnsCall cur (DBName req) (TableName req)
                in invoke env c (withData c) resp s)
             else if method = agentMethodGetAllColumns then
               (let c = GetAllColumnsCall cur (DBName req) in invoke env c (withData c) resp s)
             else if method = agentMethodGetIndexes then
               (let c = GetIndexesCall cur (DBName req) (TableName req)
                in invoke env c (withData c) resp s)
             else if method = agentMethodGetForeignKey then
               (let c = GetForeignKeysCall cur (DBName req) (TableName req)
                in invoke env c (withData c) resp s)
             else if method = agentMethodGetTriggers then
               (let c = GetTriggersCall cur (DBName req) (TableName req)
                in invoke env c (withData c) resp s)
             else if method = agentMethodApplyChanges then
               (case Changes req of
                  None \<Rightarrow> (fail resp textChangesEmpty, s)
                | Some changes \<Rightarrow>
                    if \<not> implementsBatchApplier env (fst cur) then
                      (fail resp textApplyChangesUnsupported, s)
                    else
                      invoke env (ApplyChangesCall cur (TableName req) changes) (\<lambda>h r. r) resp s)
             else (fail resp textMethodUnsupported, s))))"

text \<open>
  \<open>writeResponse\<close>: the response reaches standard output unless marshalling or writing
  fails.
\<close>

definition writeResponse ::
  "('c, 'v, 'd, 'y) agentEnv_scheme \<Rightarrow> 'd agentResponse \<Rightarrow> ('c, 'v, 'd) agent
     \<Rightarrow> string option \<times> ('c, 'v, 'd) agent" where
  "writeResponse env resp s =
     (case writeErr env (stdout s) resp of
        Some err \<Rightarrow> (Some err, s)
      | None \<Rightarrow> (None, s\<lparr>stdout := stdout s @ [resp]\<rparr>))"




section \<open>The Diros binding\<close>

text \<open>
  \<open>ConnectionConfig\<close> of internal/connection/types.go: the fields of the struct of app.go
  and the further ones.
\<close>

record ConnectionConfigExt = ConnectionConfig +
  SavePassword :: bool
  Driver :: string
  DSN :: string
  Timeout :: int
  RedisDB :: int
  URI :: string
  Hosts :: "string list"
  Topology :: string
  MySQLReplicaUser :: string
  MySQLReplicaPassword :: string
  ReplicaSet :: string
  AuthSource :: string
  ReadPreference :: string
  MongoSRV :: bool
  MongoAuthMechanism :: string
  MongoReplicaUser :: string
  MongoReplicaPassword :: string

text \<open>
  What \<open>url.Parse\<close> yields, as far as \<open>applyDirosURI\<close> reads it: the user information
  (user name, and the password when one is set), the host part, the path and the lookup
  in the query.
\<close>

record parsedURL =
  urlUser :: "(string \<times> string option) option"
  urlHost :: string
  urlPath :: string
  urlQueryGet :: "string \<Rightarrow> string"

text \<open>An opened \<open>*sql.DB\<close> handle: the driver name and the data source name it was opened on.\<close>

record sqlDB =
  driverName :: string
  dataSourceName :: string

datatype sqlCall = OpenCall string string | PingContextCall sqlDB int | CloseDBCall sqlDB

text \<open>
  The functions the Diros binding calls that are not part of the sources at hand, taken as
  parameters: the helpers \<open>parseHostPortWithDefault\<close> (\<open>None\<close> when its \<open>ok\<close> is false),
  \<open>normalizeMySQLAddress\<close>, \<open>getConnectTimeoutSeconds\<close>, \<open>getConnectTimeout\<close> and
  \<open>ssh.RegisterSSHNetwork\<close>, the library's \<open>url.Parse\<close> (\<open>None\<close> on error), and the
  errors of \<open>sql.Open\<close> and \<open>PingContext\<close> for the attempt with the given index.
\<close>

record dirosDeps =
  parseHostPortWithDefault :: "string \<Rightarrow> int \<Rightarrow> (string \<times> int) option"
  normalizeMySQLAddress :: "string \<Rightarrow> int \<Rightarrow> string"
  getConnectTimeoutSeconds :: "ConnectionConfigExt \<Rightarrow> int"
  getConnectTimeout :: "ConnectionConfigExt \<Rightarrow> int"
  RegisterSSHNetwork :: "SSHConfig \<Rightarrow> string + string"
  urlParse :: "string \<Rightarrow> parsedURL option"
  sqlOpen :: "nat \<Rightarrow> string \<Rightarrow> string \<Rightarrow> string option"
  PingContext :: "nat \<Rightarrow> sqlDB \<Rightarrow> int \<Rightarrow> string option"

definition dirosDriverName :: string where "dirosDriverName = ''diros''"

definition defaultDirosPort :: int where "defaultDirosPort = 9030"

text \<open>\<open>strings.HasPrefix\<close>, \<open>strings.TrimPrefix\<close>, \<open>strings.Split\<close> on a one-byte separator, \<open>strings.Join\<close>.\<close>

definition HasPrefix :: "string \<Rightarrow> string \<Rightarrow> bool" where
  "HasPrefix s p \<longleftrightarrow> take (length p) s = p"

definition TrimPrefix :: "string \<Rightarrow> string \<Rightarrow> string" where
  "TrimPrefix s p = (if HasPrefix s p then drop (length p) s else s)"

fun Split :: "string \<Rightarrow> char \<Rightarrow> string list" where
  "Split [] sep = [[]]"
| "Split (c # cs) sep =
     (if c = sep then [] # Split cs sep
      else (case Split cs sep of [] \<Rightarrow> [[c]] | w # ws \<Rightarrow> (c # w) # ws))"

fun Join :: "string list \<Rightarrow> string \<Rightarrow> string" where
  "Join [] sep = []"
| "Join [x] sep = x"
| "Join (x # y # ys) sep = x @ sep @ Join (y # ys) sep"

text \<open>
  The texts of the Diros binding that are not ASCII. In English: "verification after
  connecting failed:" (with a full-width colon), "no usable Diros address found",
  " open failed: ", " verification failed: ", and the full-width semicolon that joins the
  details.
\<close>

definition textVerifyFailed :: string where
  "textVerifyFailed =
     [CHR 0xE8, CHR 0xBF, CHR 0x9E, CHR 0xE6, CHR 0x8E, CHR 0xA5, CHR 0xE5, CHR 0xBB, CHR 0xBA,
      CHR 0xE7, CHR 0xAB, CHR 0x8B, CHR 0xE5, CHR 0x90, CHR 0x8E, CHR 0xE9, CHR 0xAA, CHR 0x8C,
      CHR 0xE8, CHR 0xAF, CHR 0x81, CHR 0xE5, CHR 0xA4, CHR 0xB1, CHR 0xE8, CHR 0xB4, CHR 0xA5,
      CHR 0xEF, CHR 0xBC, CHR 0x9A]"

definition textNoDirosAddress :: string where
  "textNoDirosAddress =
     [CHR 0xE6, CHR 0x9C, CHR 0xAA, CHR 0xE6, CHR 0x89, CHR 0xBE, CHR 0xE5, CHR 0x88, CHR 0xB0,
      CHR 0xE5, CHR 0x8F, CHR 0xAF, CHR 0xE7, CHR 0x94, CHR 0xA8, CHR 0xE7, CHR 0x9A, CHR 0x84]
     @ '' Diros '' @ [CHR 0xE5, CHR 0x9C, CHR 0xB0, CHR 0xE5, CHR 0x9D, CHR 0x80]"

definition textOpenFailed :: string where
  "textOpenFailed =
     '' '' @ [CHR 0xE6, CHR 0x89, CHR 0x93, CHR 0xE5, CHR 0xBC, CHR 0x80, CHR 0xE5, CHR 0xA4,
              CHR 0xB1, CHR 0xE8, CHR 0xB4, CHR 0xA5] @ '': ''"

definition textPingFailed :: string where
  "textPingFailed =
     '' '' @ [CHR 0xE9, CHR 0xAA, CHR 0x8C, CHR 0xE8, CHR 0xAF, CHR 0x81, CHR 0xE5, CHR 0xA4,
              CHR 0xB1, CHR 0xE8, CHR 0xB4, CHR 0xA5] @ '': ''"

definition textDetailSeparator :: string where
  "textDetailSeparator = [CHR 0xEF, CHR 0xBC, CHR 0x9B]"

text \<open>The loop of \<open>applyDirosURI\<close> over the comma-separated host entries.\<close>

fun hostsFromURILoop :: "dirosDeps \<Rightarrow> int \<Rightarrow> string list \<Rightarrow> string list" where
  "hostsFromURILoop deps defaultPort [] = []"
| "hostsFromURILoop deps defaultPort (entry # rest) =
     (case parseHostPortWithDefault deps entry defaultPort of
        None \<Rightarrow> hostsFromURILoop deps defaultPort rest
      | Some (host, port) \<Rightarrow>
          normalizeMySQLAddress deps host port # hostsFromURILoop deps defaultPort rest)"

definition applyDirosURI :: "dirosDeps \<Rightarrow> ConnectionConfigExt \<Rightarrow> ConnectionConfigExt" where
  "applyDirosURI deps config0 =
     (let uriText = TrimSpace (URI config0) in
      if uriText = [] then config0
      else
        let lowerURI = ToLower uriText in
        if \<not> HasPrefix lowerURI ''diros://'' \<and> \<not> HasPrefix lowerURI ''doris://''
           \<and> \<not> HasPrefix lowerURI ''mysql://'' then config0
        else
          (case urlParse deps uriText of
             None \<Rightarrow> config0
           | Some parsed \<Rightarrow>
               let config =
                     (case urlUser parsed of
                        None \<Rightarrow> config0
                      | Some (username, password) \<Rightarrow>
                          let config = (if User config0 = [] then config0\<lparr>User := username\<rparr>
                                        else config0)
                          in (case password of
                                Some pass \<Rightarrow>
                                  if Password config = [] then config\<lparr>Password := pass\<rparr>
                                  else config
                              | None \<Rightarrow> config));
                   dbName = TrimPrefix (urlPath parsed) ''/'';
                   config = (if dbName \<noteq> [] \<and> Database config = []
                             then config\<lparr>Database := dbName\<rparr> else config);
                   defaultPort = (if Port config \<le> 0 then defaultDirosPort else Port config);
                   hostText = TrimSpace (urlHost parsed);
                   hostsFromURI =
                     (if hostText \<noteq> []
                      then hostsFromURILoop deps defaultPort (Split hostText CHR '','')
                      else []);
                   config = (if length (Hosts config) = 0 \<and> length hostsFromURI > 0
                             then config\<lparr>Hosts := hostsFromURI\<rparr> else config);
                   config =
                     (if TrimSpace (Host config) = [] \<and> length hostsFromURI > 0 then
                        (case parseHostPortWithDefault deps (hd hostsFromURI) defaultPort of
                           Some (host, port) \<Rightarrow> config\<lparr>Host := host, Port := port\<rparr>
                         | None \<Rightarrow> config)
                      else config);
                   config =
                     (if Topology config = [] then
                        (let topology = TrimSpace (urlQueryGet parsed ''topology'') in
                         if topology \<noteq> [] then config\<lparr>Topology := ToLower topology\<rparr>
                         else config)
                      else config)
               in config))"

text \<open>The loop of \<open>collectDirosAddresses\<close>; \<open>seen\<close> holds the keys of the map of that name.\<close>

fun collectLoop :: "dirosDeps \<Rightarrow> int \<Rightarrow> string list \<Rightarrow> string list \<Rightarrow> string set \<Rightarrow> string list" where
  "collectLoop deps defaultPort [] result seen = result"
| "collectLoop deps defaultPort (entry # rest) result seen =
     (case parseHostPortWithDefault deps entry defaultPort of
        None \<Rightarrow> collectLoop deps defaultPort rest result seen
      | Some (host, port) \<Rightarrow>
          let normalized = normalizeMySQLAddress deps host port in
          if normalized \<in> seen then collectLoop deps defaultPort rest result seen
          else collectLoop deps defaultPort rest (result @ [normalized]) (insert normalized seen))"

definition collectDirosAddresses :: "dirosDeps \<Rightarrow> ConnectionConfigExt \<Rightarrow> string list" where
  "collectDirosAddresses deps config =
     (let defaultPort = (if Port config \<le> 0 then defaultDirosPort else Port config);
          candidates =
            (if length (Hosts config) > 0 then Hosts config
             else [normalizeMySQLAddress deps (Host config) defaultPort])
      in collectLoop deps defaultPort candidates [] {})"

text \<open>
  \<open>getDSN\<close>: "%s:%s@%s(%s)/%s?charset=utf8mb4&parseTime=True&loc=Local&timeout=%ds". The
  warning logged when the SSH network cannot be registered is not modelled.
\<close>

definition getDSN :: "dirosDeps \<Rightarrow> ConnectionConfigExt \<Rightarrow> string" where
  "getDSN deps config =
     (let database = Database config;
          address = normalizeMySQLAddress deps (Host config) (Port config);
          protocol =
            (if UseSSH config then
               (case RegisterSSHNetwork deps (SSH config) of
                  Inr netName \<Rightarrow> netName
                | Inl err \<Rightarrow> ''tcp'')
             else ''tcp'');
          timeout = getConnectTimeoutSeconds deps config
      in User config @ '':'' @ Password config @ ''@'' @ protocol @ ''('' @ address @ '')/''
           @ database @ ''?charset=utf8mb4&parseTime=True&loc=Local&timeout=''
           @ fmtInt timeout @ ''s'')"

definition resolveDirosCredential :: "ConnectionConfigExt \<Rightarrow> nat \<Rightarrow> string \<times> string" where
  "resolveDirosCredential config addressIndex =
     (let primaryUser = TrimSpace (User config);
          primaryPassword = Password config;
          replicaUser = TrimSpace (MySQLReplicaUser config);
          replicaPassword = MySQLReplicaPassword config
      in if addressIndex > 0 \<and> replicaUser \<noteq> [] then (replicaUser, replicaPassword)
         else if primaryUser = [] \<and> replicaUser \<noteq> [] then (replicaUser, replicaPassword)
         else (User config, primaryPassword))"

text \<open>
  The struct \<open>MySQLDB\<close> that \<open>DirosDB\<close> embeds, as far as \<open>Connect\<close> writes it.
\<close>

record DirosDBFields =
  conn :: "sqlDB option"
  pingTimeout :: int

text \<open>
  The state of the loop of \<open>DirosDB.Connect\<close>: the local \<open>errorDetails\<close> and the log of
  the calls made on the sql package, oldest first.
\<close>

record attempts =
  errorDetails :: "string list"
  sqlLog :: "sqlCall list"

text \<open>
  The body of the loop of \<open>DirosDB.Connect\<close> for the address at position \<open>index\<close>, with
  the sql calls it makes: the address is skipped when it does not parse (\<open>continue\<close>),
  it fails with the detail that the loop appends to \<open>errorDetails\<close> (the handle is closed
  when the ping fails), or it yields the handle and the timeout that are bound.
\<close>

datatype attemptResult = Skipped | Failed string | Connected sqlDB int

definition attemptAddress ::
  "dirosDeps \<Rightarrow> ConnectionConfigExt \<Rightarrow> nat \<Rightarrow> string \<Rightarrow> attemptResult \<times> sqlCall list" where
  "attemptAddress deps runConfig index address =
     (case parseHostPortWithDefault deps address defaultDirosPort of
        None \<Rightarrow> (Skipped, [])
      | Some (host, port) \<Rightarrow>
          let (user, password) = resolveDirosCredential runConfig index;
              candidateConfig = runConfig\<lparr>Host := host, Port := port, User := user,
                                          Password := password\<rparr>;
              dsn = getDSN deps candidateConfig
          in (case sqlOpen deps index dirosDriverName dsn of
                Some err \<Rightarrow>
                  (Failed (address @ textOpenFailed @ err), [OpenCall dirosDriverName dsn])
              | None \<Rightarrow>
                  let db = \<lparr>driverName = dirosDriverName, dataSourceName = dsn\<rparr>;
                      timeout = getConnectTimeout deps candidateConfig
                  in (case PingContext deps index db timeout of
                        Some pingErr \<Rightarrow>
                          (Failed (address @ textPingFailed @ pingErr),
                           [OpenCall dirosDriverName dsn, PingContextCall db timeout,
                            CloseDBCall db])
                      | None \<Rightarrow>
                          (Connected db timeout,
                           [OpenCall dirosDriverName dsn, PingContextCall db timeout]))))"

text \<open>
  The loop of \<open>DirosDB.Connect\<close> from position \<open>index\<close> on. It returns the handle and the
  timeout of the first address that opens and answers the ping (\<open>None\<close> when the loop
  runs to its end), and the loop state at that point.
\<close>

fun connectLoop ::
  "dirosDeps \<Rightarrow> ConnectionConfigExt \<Rightarrow> nat \<Rightarrow> string list \<Rightarrow> attempts
     \<Rightarrow> (sqlDB \<times> int) option \<times> attempts" where
  "connectLoop deps runConfig index [] st = (None, st)"
| "connectLoop deps runConfig index (address # rest) st =
     (case attemptAddress deps runConfig index address of
        (Skipped, log) \<Rightarrow>
          connectLoop deps runConfig (Suc index) rest (st\<lparr>sqlLog := sqlLog st @ log\<rparr>)
      | (Failed detail, log) \<Rightarrow>
          connectLoop deps runConfig (Suc index) rest
            (st\<lparr>sqlLog := sqlLog st @ log, errorDetails := errorDetails st @ [detail]\<rparr>)
      | (Connected db timeout, log) \<Rightarrow>
          (Some (db, timeout), st\<lparr>sqlLog := sqlLog st @ log\<rparr>))"

text \<open>
  \<open>DirosDB.Connect\<close>: the returned error (\<open>None\<close> is nil) and the receiver afterwards.
  \<open>DirosDB_attempts\<close> is the loop state the call ends with.
\<close>

definition DirosDB_attempts :: "dirosDeps \<Rightarrow> ConnectionConfigExt \<Rightarrow> attempts" where
  "DirosDB_attempts deps config =
     (let runConfig = applyDirosURI deps config
      in snd (connectLoop deps runConfig 0 (collectDirosAddresses deps runConfig)
                \<lparr>errorDetails = [], sqlLog = []\<rparr>))"

definition DirosDB_Connect ::
  "dirosDeps \<Rightarrow> ConnectionConfigExt \<Rightarrow> DirosDBFields \<Rightarrow> string option \<times> DirosDBFields" where
  "DirosDB_Connect deps config d =
     (let runConfig = applyDirosURI deps config;
          addresses = collectDirosAddresses deps runConfig
      in if length addresses = 0 then (Some (textVerifyFailed @ textNoDirosAddress), d)
         else
           (case connectLoop deps runConfig 0 addresses \<lparr>errorDetails = [], sqlLog = []\<rparr> of
              (Some (db, timeout), st) \<Rightarrow> (None, d\<lparr>conn := Some db, pingTimeout := timeout\<rparr>)
            | (None, st) \<Rightarrow>
                if length (errorDetails st) = 0
                then (Some (textVerifyFailed @ textNoDirosAddress), d)
                else (Some (textVerifyFailed @ Join (errorDetails st) textDetailSeparator), d)))"

section \<open>The normalisation as the specification words it\<close>



section \<open>Evaluation rules\<close>

lemmas eval_strings = ToLower_def TrimSpace_def asciiSpace_def toLowerByte_def char_of_eq_iff

lemmas eval_registry = fullRegistry_def registerOptionalDatabaseFactories_def
  registerDatabaseFactory_def newOptionalDriverAgentDatabase_def normalizeRuntimeDriverType_def
  normalizeDatabaseType_def databaseFactories_def Let_def

section \<open>Trimming and lowercasing\<close>











lemma normalize_doris_diros:
  "normalizeDatabaseType ''doris'' = ''diros''"
  "normalizeDatabaseType ''diros'' = ''diros''"
  by (simp_all add: normalizeDatabaseType_def eval_strings)

section \<open>The two normalisation functions\<close>


section \<open>The cache key\<close>

text \<open>
  C1. The cache key is a function of the engine type, the user, the host, the port, the
  database, the SSH host and the use-SSH flag: two configs that agree on these seven get
  the same key, whatever their passwords (and their other fields) are.
\<close>

theorem getCacheKey_ignores_password:
  assumes "Type a = Type b" and "User a = User b" and "Host a = Host b" and "Port a = Port b"
    and "Database a = Database b" and "sshHost (SSH a) = sshHost (SSH b)"
    and "UseSSH a = UseSSH b"
  shows "getCacheKey a = getCacheKey b"
  using assms by (simp add: getCacheKey_def)

theorem getCacheKey_ignores_password_witness:
  "(let ssh = \<lparr>sshHost = ''bastion'', sshPort = 22, sshUser = ''ops'', sshPassword = ''x'',
               sshKeyPath = []\<rparr>;
        a = \<lparr>Type = ''mysql'', Host = ''db1'', Port = 3306, User = ''root'',
             Password = ''old secret'', Database = ''shop'', UseSSH = True, SSH = ssh\<rparr>;
        b = a\<lparr>Password := ''new secret''\<rparr>
    in Type a = Type b \<and> User a = User b \<and> Host a = Host b \<and> Port a = Port b
       \<and> Database a = Database b \<and> sshHost (SSH a) = sshHost (SSH b) \<and> UseSSH a = UseSSH b
       \<and> Password a \<noteq> Password b
       \<and> getCacheKey a = getCacheKey b
       \<and> getCacheKey a = ''mysql|root|db1:3306|shop|bastion|true'')"
proof -
  let ?ssh = "\<lparr>sshHost = ''bastion'', sshPort = 22, sshUser = ''ops'', sshPassword = ''x'',
               sshKeyPath = []\<rparr>"
  let ?a = "\<lparr>Type = ''mysql'', Host = ''db1'', Port = 3306, User = ''root'',
             Password = ''old secret'', Database = ''shop'', UseSSH = True, SSH = ?ssh\<rparr>"
  let ?b = "?a\<lparr>Password := ''new secret''\<rparr>"
  have same: "getCacheKey ?a = getCacheKey ?b"
    by (rule getCacheKey_ignores_password) simp_all
  have key: "getCacheKey ?a = ''mysql|root|db1:3306|shop|bastion|true''"
    by (simp add: getCacheKey_def fmtInt_def fmtNat.simps fmtBool_def char_of_eq_iff)
  show ?thesis
    unfolding Let_def using same key by simp
qed

text \<open>
  C5, as the claim states it, fails: \<open>getCacheKey\<close> formats the type string as it is, so
  two configs that differ only in the spellings "doris" and "diros" get different keys.
\<close>

theorem doris_diros_cache_keys_differ:
  "getCacheKey \<lparr>Type = ''doris'', Host = ''fe1'', Port = 9030, User = ''root'', Password = ''pw'',
                Database = ''demo'', UseSSH = False,
                SSH = \<lparr>sshHost = [], sshPort = 0, sshUser = [], sshPassword = [],
                        sshKeyPath = []\<rparr>\<rparr>
   \<noteq> getCacheKey \<lparr>Type = ''diros'', Host = ''fe1'', Port = 9030, User = ''root'', Password = ''pw'',
                  Database = ''demo'', UseSSH = False,
                  SSH = \<lparr>sshHost = [], sshPort = 0, sshUser = [], sshPassword = [],
                          sshKeyPath = []\<rparr>\<rparr>"
  by (simp add: getCacheKey_def)

text \<open>
  C5, amended. "doris" and "diros" normalise to the same registry key, so \<open>NewDatabase\<close>
  resolves both to the same registry entry (the same factory, or both unsupported, the
  error texts apart); \<open>getCacheKey\<close> does not normalise the type, and the cache keys of
  configs that differ only in these two spellings are different.
\<close>

theorem doris_diros_same_entry_distinct_keys:
  "normalizeDatabaseType ''doris'' = normalizeDatabaseType ''diros''
   \<and> map_sum (\<lambda>err. ()) id (NewDatabase reg ''doris'')
       = map_sum (\<lambda>err. ()) id (NewDatabase reg ''diros'')
   \<and> getCacheKey (c\<lparr>Type := ''doris''\<rparr>) \<noteq> getCacheKey (c\<lparr>Type := ''diros''\<rparr>)"
  by (simp add: normalize_doris_diros NewDatabase_def getCacheKey_def split: option.split)

section \<open>The registry lookup\<close>

lemma fullRegistry_mysql: "fullRegistry ''mysql'' = Some MySQLDB"
  by (simp add: eval_registry eval_strings)

lemma databaseFactories_mysql: "databaseFactories ''mysql'' = Some MySQLDB"
  by (simp add: databaseFactories_def)

text \<open>
  C8. \<open>NewDatabase\<close> normalises the type string. With a registry in which "mysql" is the
  built-in MySQL binding (as in \<open>databaseFactories\<close> and \<open>fullRegistry\<close>): when the
  normalised string is empty (the empty string, or white space only) it returns the MySQL
  binding with a nil error; when the normalised name has a registered factory it returns
  that factory's product with a nil error; otherwise it returns no Database and the error
  "unsupported database type: " followed by the type string as given.
\<close>

theorem NewDatabase_resolves:
  assumes "reg ''mysql'' = Some MySQLDB"
  shows "(normalizeDatabaseType dbType = [] \<longrightarrow> NewDatabase reg dbType = Inr MySQLDB)
       \<and> (\<forall>factory. normalizeDatabaseType dbType \<noteq> []
             \<and> reg (normalizeDatabaseType dbType) = Some factory
           \<longrightarrow> NewDatabase reg dbType = Inr factory)
       \<and> (normalizeDatabaseType dbType \<noteq> [] \<and> reg (normalizeDatabaseType dbType) = None
           \<longrightarrow> NewDatabase reg dbType = Inl (''unsupported database type: '' @ dbType))"
  using assms by (simp add: NewDatabase_def Let_def)

theorem NewDatabase_resolves_witness:
  "fullRegistry ''mysql'' = Some MySQLDB
   \<and> normalizeDatabaseType [] = [] \<and> NewDatabase fullRegistry [] = Inr MySQLDB
   \<and> normalizeDatabaseType '' PostgreSQL'' \<noteq> []
   \<and> fullRegistry (normalizeDatabaseType '' PostgreSQL'') = Some PostgresDB
   \<and> NewDatabase fullRegistry '' PostgreSQL'' = Inr PostgresDB
   \<and> normalizeDatabaseType ''Redis'' \<noteq> []
   \<and> fullRegistry (normalizeDatabaseType ''Redis'') = None
   \<and> NewDatabase fullRegistry ''Redis'' = Inl ''unsupported database type: Redis''"
proof -
  have m: "fullRegistry ''mysql'' = Some MySQLDB"
    by (rule fullRegistry_mysql)
  have n1: "normalizeDatabaseType [] = []"
    and n2: "normalizeDatabaseType '' PostgreSQL'' = ''postgres''"
    and n3: "normalizeDatabaseType ''Redis'' = ''redis''"
    by (simp_all add: normalizeDatabaseType_def eval_strings)
  have r2: "fullRegistry ''postgres'' = Some PostgresDB"
    and r3: "fullRegistry ''redis'' = None"
    by (simp_all add: eval_registry eval_strings)
  show ?thesis
    using NewDatabase_resolves [of fullRegistry "[]", OF m]
      NewDatabase_resolves [of fullRegistry "'' PostgreSQL''", OF m]
      NewDatabase_resolves [of fullRegistry "''Redis''", OF m]
    by (simp add: m n1 n2 n3 r2 r3)
qed


section \<open>The connection cache\<close>

lemma getDatabase_hit:
  assumes "\<not> mu a" and "dbCache a (getCacheKey config) = Some db"
    and "errOf env (calls a) (PingCall db) = None"
  shows "getDatabase env config a = Some (Inr db, a\<lparr>calls := calls a @ [PingCall db]\<rparr>)"
  using assms by (simp add: getDatabase_def perform_def Let_def)

lemma getDatabase_success:
  assumes "getDatabase env config a = Some (Inr db, a1)"
  shows "\<not> mu a1 \<and> dbCache a1 (getCacheKey config) = Some db"
  using assms
  by (auto simp: getDatabase_def perform_def construct_def Let_def
           split: if_splits option.splits sum.splits prod.splits)

text \<open>
  C2. When a call of \<open>getDatabase\<close> has returned a Database object and that object
  answers the next ping, a second call with the same config returns the very same object
  (the same dynamic type and pointer); the only method call it makes is that ping: no
  object is constructed, no \<open>Connect\<close> is issued, and the cache is left as it was.
\<close>

theorem getDatabase_reuses_live_connection:
  assumes "getDatabase env config a = Some (Inr db, a1)"
    and "errOf env (calls a1) (PingCall db) = None"
  shows "getDatabase env config a1 = Some (Inr db, a1\<lparr>calls := calls a1 @ [PingCall db]\<rparr>)"
  using getDatabase_hit getDatabase_success[OF assms(1)] assms(2) by blast

theorem getDatabase_reuses_live_connection_witness:
  "(let env = \<lparr>errOf = (\<lambda>h c. None), dataOf = (\<lambda>h c. ()), fieldsOf = (\<lambda>h c. []),
               rowsAffectedOf = (\<lambda>h c. 0), implementsBatchApplier = (\<lambda>b. False)\<rparr>
              :: (ConnectionConfig, unit, unit) engine;
        config = \<lparr>Type = ''postgres'', Host = ''db1'', Port = 5432, User = ''app'',
                  Password = ''pw'', Database = ''shop'', UseSSH = False,
                  SSH = \<lparr>sshHost = [], sshPort = 0, sshUser = [], sshPassword = [], sshKeyPath = []\<rparr>\<rparr>;
        a = \<lparr>allocated = 0, calls = [], dbCache = Map.empty, mu = False\<rparr>;
        db = (PostgresDB, 0);
        a1 = \<lparr>allocated = 1, calls = [ConnectCall db config],
              dbCache = [''postgres|app|db1:5432|shop||false'' \<mapsto> db], mu = False\<rparr>
    in getDatabase env config a = Some (Inr db, a1)
       \<and> errOf env (calls a1) (PingCall db) = None
       \<and> getDatabase env config a1
           = Some (Inr db, \<lparr>allocated = 1, calls = [ConnectCall db config, PingCall db],
                            dbCache = [''postgres|app|db1:5432|shop||false'' \<mapsto> db], mu = False\<rparr>))"
proof -
  let ?env = "\<lparr>errOf = (\<lambda>h c. None), dataOf = (\<lambda>h c. ()), fieldsOf = (\<lambda>h c. []),
               rowsAffectedOf = (\<lambda>h c. 0), implementsBatchApplier = (\<lambda>b. False)\<rparr>
              :: (ConnectionConfig, unit, unit) engine"
  let ?config = "\<lparr>Type = ''postgres'', Host = ''db1'', Port = 5432, User = ''app'',
                  Password = ''pw'', Database = ''shop'', UseSSH = False,
                  SSH = \<lparr>sshHost = [], sshPort = 0, sshUser = [], sshPassword = [], sshKeyPath = []\<rparr>\<rparr>"
  let ?a = "\<lparr>allocated = 0, calls = [], dbCache = Map.empty, mu = False\<rparr> :: (ConnectionConfig, unit) App"
  let ?db = "(PostgresDB, 0::nat)"
  let ?a1 = "\<lparr>allocated = 1, calls = [ConnectCall ?db ?config],
              dbCache = [''postgres|app|db1:5432|shop||false'' \<mapsto> ?db], mu = False\<rparr> :: (ConnectionConfig, unit) App"
  have key: "getCacheKey ?config = ''postgres|app|db1:5432|shop||false''"
    by (simp add: getCacheKey_def fmtInt_def fmtNat.simps fmtBool_def char_of_eq_iff)
  have first: "getDatabase ?env ?config ?a = Some (Inr ?db, ?a1)"
    by (simp add: getDatabase_def key NewDatabase_main_def construct_def perform_def)
  have live: "errOf ?env (calls ?a1) (PingCall ?db) = None"
    by simp
  show ?thesis
    unfolding Let_def using first live getDatabase_reuses_live_connection [OF first live] by simp
qed

text \<open>
  C3. When the cached object of a config fails its ping, \<open>getDatabase\<close> closes that
  object right after the ping and removes its entry; then, when the factory lookup
  succeeds, it issues exactly one \<open>Connect\<close>, on a freshly constructed object, and no
  other call. When the factory lookup or that \<open>Connect\<close> fails, the error is returned
  and nothing is stored under the key; on success the new object is stored under it. A
  failing call that found no entry under the key leaves the cache as it was.
\<close>

theorem getDatabase_replaces_dead_connection:
  assumes "\<not> mu a"
  shows "(\<forall>old pingErr. dbCache a (getCacheKey config) = Some old
            \<and> errOf env (calls a) (PingCall old) = Some pingErr \<longrightarrow>
          (\<exists>res a' attempt.
              getDatabase env config a = Some (res, a')
            \<and> calls a' = calls a @ [PingCall old, CloseCall old] @ attempt
            \<and> (case NewDatabase_main (Type config) of
                 Inl err \<Rightarrow> attempt = [] \<and> res = Inl err
               | Inr b \<Rightarrow>
                   attempt = [ConnectCall (b, allocated a) config]
                   \<and> res = (case errOf env (calls a @ [PingCall old, CloseCall old])
                                   (ConnectCall (b, allocated a) config) of
                              Some err \<Rightarrow> Inl err
                            | None \<Rightarrow> Inr (b, allocated a)))
            \<and> dbCache a' = (case res of
                               Inl err \<Rightarrow> (dbCache a)(getCacheKey config := None)
                             | Inr db \<Rightarrow> (dbCache a)(getCacheKey config \<mapsto> db))
            \<and> \<not> mu a'))
     \<and> (\<forall>err a'. dbCache a (getCacheKey config) = None
            \<and> getDatabase env config a = Some (Inl err, a') \<longrightarrow> dbCache a' = dbCache a)"
proof (intro conjI allI impI)
  fix old pingErr
  assume h: "dbCache a (getCacheKey config) = Some old
             \<and> errOf env (calls a) (PingCall old) = Some pingErr"
  show "\<exists>res a' attempt.
              getDatabase env config a = Some (res, a')
            \<and> calls a' = calls a @ [PingCall old, CloseCall old] @ attempt
            \<and> (case NewDatabase_main (Type config) of
                 Inl err \<Rightarrow> attempt = [] \<and> res = Inl err
               | Inr b \<Rightarrow>
                   attempt = [ConnectCall (b, allocated a) config]
                   \<and> res = (case errOf env (calls a @ [PingCall old, CloseCall old])
                                   (ConnectCall (b, allocated a) config) of
                              Some err \<Rightarrow> Inl err
                            | None \<Rightarrow> Inr (b, allocated a)))
            \<and> dbCache a' = (case res of
                               Inl err \<Rightarrow> (dbCache a)(getCacheKey config := None)
                             | Inr db \<Rightarrow> (dbCache a)(getCacheKey config \<mapsto> db))
            \<and> \<not> mu a'"
  proof (cases "NewDatabase_main (Type config)")
    case (Inl e)
    with assms h show ?thesis
      by (simp add: getDatabase_def perform_def Let_def)
  next
    case (Inr b)
    with assms h show ?thesis
      by (cases "errOf env (calls a @ [PingCall old, CloseCall old]) (ConnectCall (b, allocated a) config)")
         (simp_all add: getDatabase_def perform_def construct_def Let_def)
  qed
next
  fix err a'
  assume "dbCache a (getCacheKey config) = None \<and> getDatabase env config a = Some (Inl err, a')"
  with assms show "dbCache a' = dbCache a"
    by (auto simp: getDatabase_def perform_def construct_def Let_def
             split: if_splits option.splits sum.splits prod.splits)
qed


theorem getDatabase_replaces_dead_connection_witness:
  "(let env = \<lparr>errOf = (\<lambda>h c. case c of PingCall db \<Rightarrow> Some ''broken pipe'' | _ \<Rightarrow> None),
               dataOf = (\<lambda>h c. ()), fieldsOf = (\<lambda>h c. []),
               rowsAffectedOf = (\<lambda>h c. 0), implementsBatchApplier = (\<lambda>b. False)\<rparr>
              :: (ConnectionConfig, unit, unit) engine;
        config = \<lparr>Type = ''mysql'', Host = ''db1'', Port = 3306, User = ''app'',
                  Password = ''pw'', Database = ''shop'', UseSSH = False,
                  SSH = \<lparr>sshHost = [], sshPort = 0, sshUser = [], sshPassword = [], sshKeyPath = []\<rparr>\<rparr>;
        old = (MySQLDB, 0);
        a = \<lparr>allocated = 1, calls = [ConnectCall old config],
             dbCache = [''mysql|app|db1:3306|shop||false'' \<mapsto> old], mu = False\<rparr>
    in \<not> mu a
       \<and> dbCache a (getCacheKey config) = Some old
       \<and> errOf env (calls a) (PingCall old) = Some ''broken pipe''
       \<and> (\<exists>a'. getDatabase env config a = Some (Inr (MySQLDB, 1), a')
              \<and> calls a' = [ConnectCall old config, PingCall old, CloseCall old,
                             ConnectCall (MySQLDB, 1) config]
              \<and> dbCache a' = [''mysql|app|db1:3306|shop||false'' \<mapsto> (MySQLDB, 1)]))"
proof -
  let ?env = "\<lparr>errOf = (\<lambda>h c. case c of PingCall db \<Rightarrow> Some ''broken pipe'' | _ \<Rightarrow> None),
               dataOf = (\<lambda>h c. ()), fieldsOf = (\<lambda>h c. []),
               rowsAffectedOf = (\<lambda>h c. 0), implementsBatchApplier = (\<lambda>b. False)\<rparr>
              :: (ConnectionConfig, unit, unit) engine"
  let ?config = "\<lparr>Type = ''mysql'', Host = ''db1'', Port = 3306, User = ''app'',
                  Password = ''pw'', Database = ''shop'', UseSSH = False,
                  SSH = \<lparr>sshHost = [], sshPort = 0, sshUser = [], sshPassword = [], sshKeyPath = []\<rparr>\<rparr>"
  let ?old = "(MySQLDB, 0::nat)"
  let ?a = "\<lparr>allocated = 1, calls = [ConnectCall ?old ?config],
             dbCache = [''mysql|app|db1:3306|shop||false'' \<mapsto> ?old], mu = False\<rparr>
            :: (ConnectionConfig, unit) App"
  have key: "getCacheKey ?config = ''mysql|app|db1:3306|shop||false''"
    by (simp add: getCacheKey_def fmtInt_def fmtNat.simps fmtBool_def char_of_eq_iff)
  have free: "\<not> mu ?a"
    by simp
  have cached: "dbCache ?a (getCacheKey ?config) = Some ?old"
    by (simp add: key)
  have dead: "errOf ?env (calls ?a) (PingCall ?old) = Some ''broken pipe''"
    by simp
  have factory: "NewDatabase_main ''mysql'' = Inr MySQLDB"
    by (simp add: NewDatabase_main_def)
  from getDatabase_replaces_dead_connection [of ?a ?config ?env, OF free] cached dead
  have "\<exists>res a' attempt.
          getDatabase ?env ?config ?a = Some (res, a')
        \<and> calls a' = calls ?a @ [PingCall ?old, CloseCall ?old] @ attempt
        \<and> (case NewDatabase_main (Type ?config) of
             Inl err \<Rightarrow> attempt = [] \<and> res = Inl err
           | Inr b \<Rightarrow>
               attempt = [ConnectCall (b, allocated ?a) ?config]
               \<and> res = (case errOf ?env (calls ?a @ [PingCall ?old, CloseCall ?old])
                               (ConnectCall (b, allocated ?a) ?config) of
                          Some err \<Rightarrow> Inl err
                        | None \<Rightarrow> Inr (b, allocated ?a)))
        \<and> dbCache a' = (case res of
                           Inl err \<Rightarrow> (dbCache ?a)(getCacheKey ?config := None)
                         | Inr db \<Rightarrow> (dbCache ?a)(getCacheKey ?config \<mapsto> db))
        \<and> \<not> mu a'"
    by blast
  then obtain res a' attempt where
    r: "getDatabase ?env ?config ?a = Some (res, a')"
    and c: "calls a' = calls ?a @ [PingCall ?old, CloseCall ?old] @ attempt"
    and f: "(case NewDatabase_main (Type ?config) of
             Inl err \<Rightarrow> attempt = [] \<and> res = Inl err
           | Inr b \<Rightarrow>
               attempt = [ConnectCall (b, allocated ?a) ?config]
               \<and> res = (case errOf ?env (calls ?a @ [PingCall ?old, CloseCall ?old])
                               (ConnectCall (b, allocated ?a) ?config) of
                          Some err \<Rightarrow> Inl err
                        | None \<Rightarrow> Inr (b, allocated ?a)))"
    and d: "dbCache a' = (case res of
                           Inl err \<Rightarrow> (dbCache ?a)(getCacheKey ?config := None)
                         | Inr db \<Rightarrow> (dbCache ?a)(getCacheKey ?config \<mapsto> db))"
    by blast
  from f have res: "res = Inr (MySQLDB, 1)" and att: "attempt = [ConnectCall (MySQLDB, 1) ?config]"
    by (simp_all add: factory)
  have "getDatabase ?env ?config ?a = Some (Inr (MySQLDB, 1), a')
        \<and> calls a' = [ConnectCall ?old ?config, PingCall ?old, CloseCall ?old,
                       ConnectCall (MySQLDB, 1) ?config]
        \<and> dbCache a' = [''mysql|app|db1:3306|shop||false'' \<mapsto> (MySQLDB, 1)]"
    using r c d by (simp add: res att key)
  then show ?thesis
    unfolding Let_def using free cached dead by blast
qed


section \<open>The agent worker\<close>

lemmas agentMethods = agentMethodConnect_def agentMethodClose_def agentMethodPing_def
  agentMethodQuery_def agentMethodExec_def agentMethodGetDatabases_def agentMethodGetTables_def
  agentMethodGetCreateStmt_def agentMethodGetColumns_def agentMethodGetAllColumns_def
  agentMethodGetIndexes_def agentMethodGetForeignKey_def agentMethodGetTriggers_def
  agentMethodApplyChanges_def




lemma handleRequest_opens_only_by_connect:
  assumes "inst s = None" and "handleRequest env s req = Some (resp, s')" and "inst s' \<noteq> None"
  shows "TrimSpace (Method req) = agentMethodConnect \<and> agentResponse.Success resp
       \<and> (\<exists>db config. Config req = Some config \<and> inst s' = Some db
              \<and> errOf env (calls s) (ConnectCall db config) = None)"
  using assms
  unfolding handleRequest_def Let_def
  by (auto simp: fail_def perform_def construct_def
           split: option.splits if_splits prod.splits)

lemma TrimSpace_not_open: "TrimSpace ''connection not open'' = ''connection not open''"
  by (simp add: eval_strings)

text \<open>
  C7. In a worker with no open connection (\<open>inst\<close> is nil, as it is until a connect
  succeeds): every method other than connect and close, and so each of ping, query, exec,
  the metadata getters and applyChanges, is answered with a failure whose error text is
  "connection not open", and the state of the worker is unchanged; close is answered with
  success; connect with a config constructs an object and calls \<open>Connect\<close> on it, and
  the connection is open afterwards exactly when that call returns no error. No request
  other than a connect that succeeds opens the connection.
\<close>

theorem handleRequest_without_connection:
  assumes "inst s = None"
  shows "(TrimSpace (Method req) \<noteq> agentMethodConnect \<and> TrimSpace (Method req) \<noteq> agentMethodClose
            \<longrightarrow> handleRequest env s req
                 = Some (\<lparr>agentResponse.ID = agentRequest.ID req, Success = False,
                           Error = ''connection not open'', Data = None, Fields = [],
                           RowsAffected = 0\<rparr>, s))
       \<and> (Method req \<in> {agentMethodPing, agentMethodQuery, agentMethodExec,
              agentMethodGetDatabases, agentMethodGetTables, agentMethodGetCreateStmt,
              agentMethodGetColumns, agentMethodGetAllColumns, agentMethodGetIndexes,
              agentMethodGetForeignKey, agentMethodGetTriggers, agentMethodApplyChanges}
            \<longrightarrow> handleRequest env s req
                 = Some (\<lparr>agentResponse.ID = agentRequest.ID req, Success = False,
                           Error = ''connection not open'', Data = None, Fields = [],
                           RowsAffected = 0\<rparr>, s))
       \<and> (TrimSpace (Method req) = agentMethodClose
            \<longrightarrow> handleRequest env s req
                 = Some (\<lparr>agentResponse.ID = agentRequest.ID req, Success = True, Error = [],
                           Data = None, Fields = [], RowsAffected = 0\<rparr>, s))
       \<and> (\<forall>config b. TrimSpace (Method req) = agentMethodConnect \<and> Config req = Some config
              \<and> agentDatabaseFactory env = Some (Some b)
            \<longrightarrow> handleRequest env s req
                 = Some (case errOf env (calls s) (ConnectCall (b, allocated s) config) of
                           None \<Rightarrow>
                             (\<lparr>agentResponse.ID = agentRequest.ID req, Success = True, Error = [],
                               Data = None, Fields = [], RowsAffected = 0\<rparr>,
                              s\<lparr>allocated := Suc (allocated s),
                                calls := calls s @ [ConnectCall (b, allocated s) config],
                                inst := Some (b, allocated s)\<rparr>)
                         | Some err \<Rightarrow>
                             (\<lparr>agentResponse.ID = agentRequest.ID req, Success = False,
                               Error = TrimSpace err, Data = None, Fields = [],
                               RowsAffected = 0\<rparr>,
                              s\<lparr>allocated := Suc (allocated s),
                                calls := calls s @ [ConnectCall (b, allocated s) config]\<rparr>)))
       \<and> (\<forall>resp s'. handleRequest env s req = Some (resp, s') \<and> inst s' \<noteq> None
            \<longrightarrow> TrimSpace (Method req) = agentMethodConnect \<and> agentResponse.Success resp
                \<and> (\<exists>db config. Config req = Some config \<and> inst s' = Some db
                       \<and> errOf env (calls s) (ConnectCall db config) = None))"
proof -
  have other: "handleRequest env s req
                 = Some (\<lparr>agentResponse.ID = agentRequest.ID req, Success = False,
                           Error = ''connection not open'', Data = None, Fields = [],
                           RowsAffected = 0\<rparr>, s)"
    if "TrimSpace (Method req) \<noteq> agentMethodConnect" "TrimSpace (Method req) \<noteq> agentMethodClose"
    using that assms by (simp add: handleRequest_def Let_def fail_def TrimSpace_not_open)
  have named: "TrimSpace (Method req) \<noteq> agentMethodConnect \<and> TrimSpace (Method req) \<noteq> agentMethodClose"
    if "Method req \<in> {agentMethodPing, agentMethodQuery, agentMethodExec,
              agentMethodGetDatabases, agentMethodGetTables, agentMethodGetCreateStmt,
              agentMethodGetColumns, agentMethodGetAllColumns, agentMethodGetIndexes,
              agentMethodGetForeignKey, agentMethodGetTriggers, agentMethodApplyChanges}"
    using that by (auto simp: agentMethods eval_strings)
  have close: "handleRequest env s req
                 = Some (\<lparr>agentResponse.ID = agentRequest.ID req, Success = True, Error = [],
                           Data = None, Fields = [], RowsAffected = 0\<rparr>, s)"
    if "TrimSpace (Method req) = agentMethodClose"
    using that assms by (simp add: handleRequest_def Let_def agentMethods)
  have connect: "handleRequest env s req
                 = Some (case errOf env (calls s) (ConnectCall (b, allocated s) config) of
                           None \<Rightarrow>
                             (\<lparr>agentResponse.ID = agentRequest.ID req, Success = True, Error = [],
                               Data = None, Fields = [], RowsAffected = 0\<rparr>,
                              s\<lparr>allocated := Suc (allocated s),
                                calls := calls s @ [ConnectCall (b, allocated s) config],
                                inst := Some (b, allocated s)\<rparr>)
                         | Some err \<Rightarrow>
                             (\<lparr>agentResponse.ID = agentRequest.ID req, Success = False,
                               Error = TrimSpace err, Data = None, Fields = [],
                               RowsAffected = 0\<rparr>,
                              s\<lparr>allocated := Suc (allocated s),
                                calls := calls s @ [ConnectCall (b, allocated s) config]\<rparr>))"
    if "TrimSpace (Method req) = agentMethodConnect" "Config req = Some config"
       "agentDatabaseFactory env = Some (Some b)" for config b
    using that assms
    by (simp add: handleRequest_def Let_def fail_def construct_def perform_def split: option.split)
  have opens: "TrimSpace (Method req) = agentMethodConnect \<and> agentResponse.Success resp
                \<and> (\<exists>db config. Config req = Some config \<and> inst s' = Some db
                       \<and> errOf env (calls s) (ConnectCall db config) = None)"
    if "handleRequest env s req = Some (resp, s') \<and> inst s' \<noteq> None" for resp s'
    using that handleRequest_opens_only_by_connect [OF assms] by blast
  show ?thesis
    using other named close connect opens by blast
qed


theorem handleRequest_without_connection_witness:
  "(let env = \<lparr>errOf = (\<lambda>h c. None), dataOf = (\<lambda>h c. ()), fieldsOf = (\<lambda>h c. []),
               rowsAffectedOf = (\<lambda>h c. 0), implementsBatchApplier = (\<lambda>b. False),
               agentDriverType = ''sphinx'', agentDatabaseFactory = Some (Some SphinxDB),
               Unmarshal = (\<lambda>line. (\<lparr>agentRequest.ID = 0, Method = line, Config = None, Query = [],
                                        DBName = [], TableName = [], Changes = None\<rparr>, None)),
               writeErr = (\<lambda>out resp. None)\<rparr>
              :: (ConnectionConfigExt, unit, unit) agentEnv;
        s = \<lparr>allocated = 0, calls = [], inst = None, stdout = []\<rparr>
            :: (ConnectionConfigExt, unit, unit) agent;
        req = \<lparr>agentRequest.ID = 7, Method = '' query '', Config = None, Query = ''select 1'',
               DBName = [], TableName = [], Changes = None\<rparr>
    in inst s = None
       \<and> TrimSpace (Method req) \<noteq> agentMethodConnect
       \<and> TrimSpace (Method req) \<noteq> agentMethodClose
       \<and> handleRequest env s req
           = Some (\<lparr>agentResponse.ID = 7, Success = False, Error = ''connection not open'',
                     Data = None, Fields = [], RowsAffected = 0\<rparr>, s))"
proof -
  let ?env = "\<lparr>errOf = (\<lambda>h c. None), dataOf = (\<lambda>h c. ()), fieldsOf = (\<lambda>h c. []),
               rowsAffectedOf = (\<lambda>h c. 0), implementsBatchApplier = (\<lambda>b. False),
               agentDriverType = ''sphinx'', agentDatabaseFactory = Some (Some SphinxDB),
               Unmarshal = (\<lambda>line. (\<lparr>agentRequest.ID = 0, Method = line, Config = None, Query = [],
                                        DBName = [], TableName = [], Changes = None\<rparr>, None)),
               writeErr = (\<lambda>out resp. None)\<rparr>
              :: (ConnectionConfigExt, unit, unit) agentEnv"
  let ?s = "\<lparr>allocated = 0, calls = [], inst = None, stdout = []\<rparr>
            :: (ConnectionConfigExt, unit, unit) agent"
  let ?req = "\<lparr>agentRequest.ID = 7, Method = '' query '', Config = None, Query = ''select 1'',
               DBName = [], TableName = [], Changes = None\<rparr>
              :: (ConnectionConfigExt, unit) agentRequest"
  have closed: "inst ?s = None"
    by simp
  have m: "TrimSpace (Method ?req) \<noteq> agentMethodConnect \<and> TrimSpace (Method ?req) \<noteq> agentMethodClose"
    by (simp add: agentMethods eval_strings)
  show ?thesis
    unfolding Let_def
    using closed m handleRequest_without_connection [of ?s ?req ?env, OF closed]
    by simp
qed


section \<open>Batch writes without the capability\<close>

lemma TrimSpace_unsupported:
  "TrimSpace textApplyChangesUnsupported = textApplyChangesUnsupported"
  "TrimSpace textChangesEmpty = textChangesEmpty"
  by (simp_all add: textApplyChangesUnsupported_def textChangesEmpty_def eval_strings)

lemma applyChanges_not_special:
  "agentMethodApplyChanges \<noteq> agentMethodConnect" "agentMethodApplyChanges \<noteq> agentMethodClose"
  "agentMethodApplyChanges \<noteq> agentMethodPing" "agentMethodApplyChanges \<noteq> agentMethodQuery"
  "agentMethodApplyChanges \<noteq> agentMethodExec" "agentMethodApplyChanges \<noteq> agentMethodGetDatabases"
  "agentMethodApplyChanges \<noteq> agentMethodGetTables" "agentMethodApplyChanges \<noteq> agentMethodGetCreateStmt"
  "agentMethodApplyChanges \<noteq> agentMethodGetColumns" "agentMethodApplyChanges \<noteq> agentMethodGetAllColumns"
  "agentMethodApplyChanges \<noteq> agentMethodGetIndexes" "agentMethodApplyChanges \<noteq> agentMethodGetForeignKey"
  "agentMethodApplyChanges \<noteq> agentMethodGetTriggers"
  by (simp_all add: agentMethods)

lemma getDatabase_calls:
  assumes "getDatabase env config a = Some (res, a1)"
  shows "\<exists>new. calls a1 = calls a @ new
           \<and> list_all (\<lambda>c. case c of ConnectCall db cfg \<Rightarrow> True | CloseCall db \<Rightarrow> True
                              | PingCall db \<Rightarrow> True | _ \<Rightarrow> False) new"
  using assms
  by (auto simp: getDatabase_def perform_def construct_def Let_def
           split: if_splits option.splits sum.splits prod.splits)

text \<open>
  C6, amended. For a connected binding whose method set has no \<open>ApplyChanges\<close>: the
  worker answers an applyChanges request that carries a change set with the failure "the
  current driver does not support ApplyChanges", and one that carries none with the
  failure "change set is empty"; \<open>App.ApplyChanges\<close>, once \<open>getDatabase\<close> has returned
  the object, returns the failure "Batch updates not supported for this database type". In
  all three cases no write reaches the engine: the worker makes no call at all, and the
  calls of \<open>App.ApplyChanges\<close> are those of \<open>getDatabase\<close>, which are \<open>Ping\<close>, \<open>Close\<close> and
  \<open>Connect\<close> calls only.
\<close>

theorem applyChanges_unsupported:
  "(\<forall>cur changes. inst s = Some cur \<and> \<not> implementsBatchApplier wenv (fst cur)
        \<and> TrimSpace (Method req) = agentMethodApplyChanges \<and> Changes req = Some changes
      \<longrightarrow> handleRequest wenv s req
           = Some (\<lparr>agentResponse.ID = agentRequest.ID req, Success = False,
                     Error = textApplyChangesUnsupported, Data = None, Fields = [],
                     RowsAffected = 0\<rparr>, s))
   \<and> (\<forall>cur. inst s = Some cur \<and> \<not> implementsBatchApplier wenv (fst cur)
        \<and> TrimSpace (Method req) = agentMethodApplyChanges \<and> Changes req = None
      \<longrightarrow> handleRequest wenv s req
           = Some (\<lparr>agentResponse.ID = agentRequest.ID req, Success = False,
                     Error = textChangesEmpty, Data = None, Fields = [],
                     RowsAffected = 0\<rparr>, s))
   \<and> (\<forall>db a1. getDatabase env (if dbName \<noteq> [] then config\<lparr>Database := dbName\<rparr> else config) a
                  = Some (Inr db, a1)
        \<and> \<not> implementsBatchApplier env (fst db)
      \<longrightarrow> App_ApplyChanges env config dbName tableName cs a
           = Some (\<lparr>QueryResult.Success = False,
                     Message = ''Batch updates not supported for this database type'',
                     QueryResult.Data = None, QueryResult.Fields = []\<rparr>, a1)
          \<and> (\<exists>new. calls a1 = calls a @ new
                \<and> list_all (\<lambda>c. case c of ConnectCall db cfg \<Rightarrow> True | CloseCall db \<Rightarrow> True
                                   | PingCall db \<Rightarrow> True | _ \<Rightarrow> False) new))"
proof (intro conjI allI impI)
  fix cur changes
  assume "inst s = Some cur \<and> \<not> implementsBatchApplier wenv (fst cur)
        \<and> TrimSpace (Method req) = agentMethodApplyChanges \<and> Changes req = Some changes"
  then show "handleRequest wenv s req
           = Some (\<lparr>agentResponse.ID = agentRequest.ID req, Success = False,
                     Error = textApplyChangesUnsupported, Data = None, Fields = [],
                     RowsAffected = 0\<rparr>, s)"
    by (simp add: handleRequest_def Let_def fail_def applyChanges_not_special TrimSpace_unsupported)
next
  fix cur
  assume "inst s = Some cur \<and> \<not> implementsBatchApplier wenv (fst cur)
        \<and> TrimSpace (Method req) = agentMethodApplyChanges \<and> Changes req = None"
  then show "handleRequest wenv s req
           = Some (\<lparr>agentResponse.ID = agentRequest.ID req, Success = False,
                     Error = textChangesEmpty, Data = None, Fields = [],
                     RowsAffected = 0\<rparr>, s)"
    by (simp add: handleRequest_def Let_def fail_def applyChanges_not_special TrimSpace_unsupported)
next
  fix db a1
  assume h: "getDatabase env (if dbName \<noteq> [] then config\<lparr>Database := dbName\<rparr> else config) a
                  = Some (Inr db, a1)
        \<and> \<not> implementsBatchApplier env (fst db)"
  then show "App_ApplyChanges env config dbName tableName cs a
           = Some (\<lparr>QueryResult.Success = False,
                     Message = ''Batch updates not supported for this database type'',
                     QueryResult.Data = None, QueryResult.Fields = []\<rparr>, a1)"
    by (simp add: App_ApplyChanges_def Let_def)
  from h show "\<exists>new. calls a1 = calls a @ new
                \<and> list_all (\<lambda>c. case c of ConnectCall db cfg \<Rightarrow> True | CloseCall db \<Rightarrow> True
                                   | PingCall db \<Rightarrow> True | _ \<Rightarrow> False) new"
    using getDatabase_calls by blast
qed


text \<open>
  C6, as the claim states it, fails in the worker: a request for applyChanges that carries
  no change set is answered "change set is empty" before the capability of the binding
  is looked at, not with the "not supported" error.
\<close>

theorem applyChanges_without_change_set:
  "handleRequest
     (\<lparr>errOf = (\<lambda>h c. None), dataOf = (\<lambda>h c. ()), fieldsOf = (\<lambda>h c. []),
       rowsAffectedOf = (\<lambda>h c. 0), implementsBatchApplier = (\<lambda>b. False),
       agentDriverType = ''tdengine'', agentDatabaseFactory = Some (Some TDengineDB),
       Unmarshal = (\<lambda>line. (\<lparr>agentRequest.ID = 0, Method = line, Config = None, Query = [],
                                DBName = [], TableName = [], Changes = None\<rparr>, None)),
       writeErr = (\<lambda>out resp. None)\<rparr> :: (ConnectionConfigExt, unit, unit) agentEnv)
     \<lparr>allocated = 1, calls = [], inst = Some (TDengineDB, 0), stdout = []\<rparr>
     \<lparr>agentRequest.ID = 1, Method = ''applyChanges'', Config = None, Query = [], DBName = [],
       TableName = ''meters'', Changes = None\<rparr>
   = Some (\<lparr>agentResponse.ID = 1, Success = False, Error = textChangesEmpty, Data = None,
             Fields = [], RowsAffected = 0\<rparr>,
           \<lparr>allocated = 1, calls = [], inst = Some (TDengineDB, 0), stdout = []\<rparr>)
   \<and> textChangesEmpty \<noteq> textApplyChangesUnsupported"
  by (simp add: handleRequest_def Let_def fail_def agentMethods eval_strings
        textChangesEmpty_def textApplyChangesUnsupported_def)

theorem applyChanges_unsupported_witness:
  "(let wenv = \<lparr>errOf = (\<lambda>h c. None), dataOf = (\<lambda>h c. ()), fieldsOf = (\<lambda>h c. []),
                rowsAffectedOf = (\<lambda>h c. 0), implementsBatchApplier = (\<lambda>b. False),
                agentDriverType = ''tdengine'', agentDatabaseFactory = Some (Some TDengineDB),
                Unmarshal = (\<lambda>line. (\<lparr>agentRequest.ID = 0, Method = line, Config = None,
                                         Query = [], DBName = [], TableName = [],
                                         Changes = None\<rparr>, None)),
                writeErr = (\<lambda>out resp. None)\<rparr>
               :: (ConnectionConfigExt, unit, unit) agentEnv;
        s = \<lparr>allocated = 1, calls = [], inst = Some (TDengineDB, 0), stdout = []\<rparr>
            :: (ConnectionConfigExt, unit, unit) agent;
        changes = \<lparr>Inserts = [[''ts'' \<mapsto> ()]], Updates = [], Deletes = []\<rparr>;
        req = \<lparr>agentRequest.ID = 1, Method = ''applyChanges'', Config = None, Query = [],
               DBName = [], TableName = ''meters'', Changes = Some changes\<rparr>;
        env = \<lparr>errOf = (\<lambda>h c. None), dataOf = (\<lambda>h c. ()), fieldsOf = (\<lambda>h c. []),
               rowsAffectedOf = (\<lambda>h c. 0), implementsBatchApplier = (\<lambda>b. False)\<rparr>
              :: (ConnectionConfig, unit, unit) engine;
        config = \<lparr>Type = ''postgres'', Host = ''db1'', Port = 5432, User = ''app'',
                  Password = ''pw'', Database = [], UseSSH = False,
                  SSH = \<lparr>sshHost = [], sshPort = 0, sshUser = [], sshPassword = [],
                          sshKeyPath = []\<rparr>\<rparr>;
        runConfig = config\<lparr>Database := ''shop''\<rparr>;
        a = \<lparr>allocated = 0, calls = [], dbCache = Map.empty, mu = False\<rparr>
            :: (ConnectionConfig, unit) App;
        db = (PostgresDB, 0);
        a1 = \<lparr>allocated = 1, calls = [ConnectCall db runConfig],
              dbCache = [''postgres|app|db1:5432|shop||false'' \<mapsto> db], mu = False\<rparr>
    in inst s = Some (TDengineDB, 0) \<and> \<not> implementsBatchApplier wenv (fst (TDengineDB, 0 :: nat))
       \<and> TrimSpace (Method req) = agentMethodApplyChanges \<and> Changes req = Some changes
       \<and> handleRequest wenv s req
           = Some (\<lparr>agentResponse.ID = 1, Success = False, Error = textApplyChangesUnsupported,
                     Data = None, Fields = [], RowsAffected = 0\<rparr>, s)
       \<and> getDatabase env runConfig a = Some (Inr db, a1)
       \<and> \<not> implementsBatchApplier env (fst db)
       \<and> App_ApplyChanges env config ''shop'' ''orders'' changes a
           = Some (\<lparr>QueryResult.Success = False,
                     Message = ''Batch updates not supported for this database type'',
                     QueryResult.Data = None, QueryResult.Fields = []\<rparr>, a1))"
proof -
  let ?wenv = "\<lparr>errOf = (\<lambda>h c. None), dataOf = (\<lambda>h c. ()), fieldsOf = (\<lambda>h c. []),
                rowsAffectedOf = (\<lambda>h c. 0), implementsBatchApplier = (\<lambda>b. False),
                agentDriverType = ''tdengine'', agentDatabaseFactory = Some (Some TDengineDB),
                Unmarshal = (\<lambda>line. (\<lparr>agentRequest.ID = 0, Method = line, Config = None,
                                         Query = [], DBName = [], TableName = [],
                                         Changes = None\<rparr>, None)),
                writeErr = (\<lambda>out resp. None)\<rparr>
               :: (ConnectionConfigExt, unit, unit) agentEnv"
  let ?s = "\<lparr>allocated = 1, calls = [], inst = Some (TDengineDB, 0), stdout = []\<rparr>
            :: (ConnectionConfigExt, unit, unit) agent"
  let ?changes = "\<lparr>Inserts = [[''ts'' \<mapsto> ()]], Updates = [], Deletes = []\<rparr> :: unit ChangeSet"
  let ?req = "\<lparr>agentRequest.ID = 1, Method = ''applyChanges'', Config = None, Query = [],
               DBName = [], TableName = ''meters'', Changes = Some ?changes\<rparr>
              :: (ConnectionConfigExt, unit) agentRequest"
  let ?env = "\<lparr>errOf = (\<lambda>h c. None), dataOf = (\<lambda>h c. ()), fieldsOf = (\<lambda>h c. []),
               rowsAffectedOf = (\<lambda>h c. 0), implementsBatchApplier = (\<lambda>b. False)\<rparr>
              :: (ConnectionConfig, unit, unit) engine"
  let ?config = "\<lparr>Type = ''postgres'', Host = ''db1'', Port = 5432, User = ''app'',
                  Password = ''pw'', Database = [], UseSSH = False,
                  SSH = \<lparr>sshHost = [], sshPort = 0, sshUser = [], sshPassword = [],
                          sshKeyPath = []\<rparr>\<rparr>"
  let ?runConfig = "?config\<lparr>Database := ''shop''\<rparr>"
  let ?a = "\<lparr>allocated = 0, calls = [], dbCache = Map.empty, mu = False\<rparr>
            :: (ConnectionConfig, unit) App"
  let ?db = "(PostgresDB, 0::nat)"
  let ?a1 = "\<lparr>allocated = 1, calls = [ConnectCall ?db ?runConfig],
              dbCache = [''postgres|app|db1:5432|shop||false'' \<mapsto> ?db], mu = False\<rparr>
             :: (ConnectionConfig, unit) App"
  have w: "inst ?s = Some (TDengineDB, 0) \<and> \<not> implementsBatchApplier ?wenv (fst (TDengineDB, 0 :: nat))
       \<and> TrimSpace (Method ?req) = agentMethodApplyChanges \<and> Changes ?req = Some ?changes"
    by (simp add: agentMethods eval_strings)
  have key: "getCacheKey ?runConfig = ''postgres|app|db1:5432|shop||false''"
    by (simp add: getCacheKey_def fmtInt_def fmtNat.simps fmtBool_def char_of_eq_iff)
  have g: "getDatabase ?env (if ''shop'' \<noteq> [] then ?config\<lparr>Database := ''shop''\<rparr> else ?config) ?a
             = Some (Inr ?db, ?a1) \<and> \<not> implementsBatchApplier ?env (fst ?db)"
    using key by (simp add: getDatabase_def NewDatabase_main_def construct_def perform_def)
  note both = applyChanges_unsupported [of ?s ?wenv ?req ?env "''shop''" ?config ?a "''orders''" ?changes]
  from both w have r1: "handleRequest ?wenv ?s ?req
           = Some (\<lparr>agentResponse.ID = agentRequest.ID ?req, Success = False,
                     Error = textApplyChangesUnsupported, Data = None, Fields = [],
                     RowsAffected = 0\<rparr>, ?s)"
    by blast
  from both g have r2: "App_ApplyChanges ?env ?config ''shop'' ''orders'' ?changes ?a
           = Some (\<lparr>QueryResult.Success = False,
                     Message = ''Batch updates not supported for this database type'',
                     QueryResult.Data = None, QueryResult.Fields = []\<rparr>, ?a1)"
    by blast
  from g have g': "getDatabase ?env ?runConfig ?a = Some (Inr ?db, ?a1)"
    by simp
  show ?thesis
    unfolding Let_def using w r1 r2 g' by simp
qed


section \<open>The loop of the worker\<close>


lemma writeResponse_ok:
  assumes "\<forall>out resp. writeErr env out resp = None"
  shows "writeResponse env resp s = (None, s\<lparr>stdout := stdout s @ [resp]\<rparr>)"
  using assms by (simp add: writeResponse_def)






section \<open>Failover of the Diros binding\<close>

lemma attemptAddress_Connected:
  assumes "attemptAddress deps rc i address = (Connected db t, log)"
  shows "\<exists>host port. parseHostPortWithDefault deps address defaultDirosPort = Some (host, port)
           \<and> db = \<lparr>driverName = dirosDriverName,
                    dataSourceName = getDSN deps (rc\<lparr>Host := host, Port := port,
                       User := fst (resolveDirosCredential rc i),
                       Password := snd (resolveDirosCredential rc i)\<rparr>)\<rparr>"
  using assms
  by (auto simp: attemptAddress_def Let_def split: option.splits prod.splits)

lemma attemptAddress_Failed:
  assumes "attemptAddress deps rc i address = (Failed detail, log)"
  shows "\<exists>err. detail = address @ textOpenFailed @ err \<or> detail = address @ textPingFailed @ err"
  using assms
  by (auto simp: attemptAddress_def Let_def split: option.splits prod.splits)

lemma connectLoop_all_fail:
  assumes "\<forall>(i, address) \<in> set (enumerate index xs).
             \<forall>db t. fst (attemptAddress deps rc i address) \<noteq> Connected db t"
  shows "fst (connectLoop deps rc index xs st) = None
       \<and> errorDetails (snd (connectLoop deps rc index xs st))
           = errorDetails st
             @ concat (map (\<lambda>(i, address). case fst (attemptAddress deps rc i address) of
                                              Failed detail \<Rightarrow> [detail] | _ \<Rightarrow> [])
                         (enumerate index xs))"
  using assms
proof (induction xs arbitrary: index st)
  case Nil
  then show ?case by simp
next
  case (Cons address rest)
  obtain r log where a: "attemptAddress deps rc index address = (r, log)"
    by (cases "attemptAddress deps rc index address")
  from Cons.prems have rest: "\<forall>(i, address) \<in> set (enumerate (Suc index) rest).
             \<forall>db t. fst (attemptAddress deps rc i address) \<noteq> Connected db t"
    and here: "\<forall>db t. r \<noteq> Connected db t"
    using a by auto
  show ?case
  proof (cases r)
    case Skipped
    with a Cons.IH [OF rest] show ?thesis by simp
  next
    case (Failed detail)
    with a Cons.IH [OF rest] show ?thesis by simp
  next
    case (Connected db t)
    with here show ?thesis by simp
  qed
qed

lemma connectLoop_connected:
  assumes "fst (connectLoop deps rc index xs st) = Some (db, t)"
  shows "\<exists>(i, address) \<in> set (enumerate index xs).
            fst (attemptAddress deps rc i address) = Connected db t"
  using assms
proof (induction xs arbitrary: index st)
  case Nil
  then show ?case by simp
next
  case (Cons address rest)
  obtain r log where a: "attemptAddress deps rc index address = (r, log)"
    by (cases "attemptAddress deps rc index address")
  show ?case
  proof (cases r)
    case Skipped
    with a Cons.prems have "fst (connectLoop deps rc (Suc index) rest (st\<lparr>sqlLog := sqlLog st @ log\<rparr>)) = Some (db, t)"
      by simp
    from Cons.IH [OF this] show ?thesis by auto
  next
    case (Failed detail)
    with a Cons.prems have "fst (connectLoop deps rc (Suc index) rest
            (st\<lparr>sqlLog := sqlLog st @ log, errorDetails := errorDetails st @ [detail]\<rparr>)) = Some (db, t)"
      by simp
    from Cons.IH [OF this] show ?thesis by auto
  next
    case (Connected db' t')
    with a Cons.prems show ?thesis by auto
  qed
qed


lemma connectLoop_none_or_some:
  "fst (connectLoop deps rc index xs st) = None
   \<longleftrightarrow> (\<forall>(i, address) \<in> set (enumerate index xs).
          \<forall>db t. fst (attemptAddress deps rc i address) \<noteq> Connected db t)"
proof
  assume n: "fst (connectLoop deps rc index xs st) = None"
  show "\<forall>(i, address) \<in> set (enumerate index xs).
          \<forall>db t. fst (attemptAddress deps rc i address) \<noteq> Connected db t"
    using n
  proof (induction xs arbitrary: index st)
    case Nil
    then show ?case by simp
  next
    case (Cons address rest)
    obtain r log where a: "attemptAddress deps rc index address = (r, log)"
      by (cases "attemptAddress deps rc index address")
    show ?case
    proof (cases r)
      case Skipped
      with a Cons.prems have "fst (connectLoop deps rc (Suc index) rest (st\<lparr>sqlLog := sqlLog st @ log\<rparr>)) = None"
        by simp
      from Cons.IH [OF this] a Skipped show ?thesis by auto
    next
      case (Failed detail)
      with a Cons.prems have "fst (connectLoop deps rc (Suc index) rest
              (st\<lparr>sqlLog := sqlLog st @ log, errorDetails := errorDetails st @ [detail]\<rparr>)) = None"
        by simp
      from Cons.IH [OF this] a Failed show ?thesis by auto
    next
      case (Connected db' t')
      with a Cons.prems show ?thesis by simp
    qed
  qed
next
  assume "\<forall>(i, address) \<in> set (enumerate index xs).
          \<forall>db t. fst (attemptAddress deps rc i address) \<noteq> Connected db t"
  from connectLoop_all_fail [OF this] show "fst (connectLoop deps rc index xs st) = None"
    by blast
qed

text \<open>
  C9. Let the candidate addresses of a config be two, where the attempt on the first fails
  (at opening or at the ping) and the attempt on the second succeeds. Then
  \<open>DirosDB.Connect\<close> returns nil, the connection it binds is the handle opened on the data
  source name of the second address, and the error details accumulated by the attempts
  hold exactly the failure of the first address. In general \<open>Connect\<close> returns an error
  exactly when no attempt connects; the receiver is then unchanged, and the error is the
  combined text that lists the failure of every address that failed, in order (or the
  text "no usable Diros address found" when there is no failure to list).
\<close>

theorem DirosDB_Connect_fails_over:
  "(let runConfig = applyDirosURI deps config;
        addresses = collectDirosAddresses deps runConfig;
        failures = concat (map (\<lambda>(i, address).
                      case fst (attemptAddress deps runConfig i address) of
                        Failed detail \<Rightarrow> [detail] | _ \<Rightarrow> [])
                    (enumerate 0 addresses))
    in (\<forall>first second detail log1 db timeout log2.
          addresses = [first, second]
          \<and> attemptAddress deps runConfig 0 first = (Failed detail, log1)
          \<and> attemptAddress deps runConfig 1 second = (Connected db timeout, log2)
        \<longrightarrow> DirosDB_Connect deps config d = (None, d\<lparr>conn := Some db, pingTimeout := timeout\<rparr>)
            \<and> DirosDB_attempts deps config = \<lparr>errorDetails = [detail], sqlLog = log1 @ log2\<rparr>
            \<and> (\<exists>err. detail = first @ textOpenFailed @ err
                      \<or> detail = first @ textPingFailed @ err)
            \<and> (\<exists>host port.
                  parseHostPortWithDefault deps second defaultDirosPort = Some (host, port)
                  \<and> db = \<lparr>driverName = dirosDriverName,
                           dataSourceName =
                             getDSN deps (runConfig\<lparr>Host := host, Port := port,
                               User := fst (resolveDirosCredential runConfig 1),
                               Password := snd (resolveDirosCredential runConfig 1)\<rparr>)\<rparr>))
     \<and> ((fst (DirosDB_Connect deps config d) \<noteq> None)
          = (\<forall>(i, address) \<in> set (enumerate 0 addresses).
               \<forall>db timeout. fst (attemptAddress deps runConfig i address) \<noteq> Connected db timeout))
     \<and> (fst (DirosDB_Connect deps config d) \<noteq> None
        \<longrightarrow> DirosDB_Connect deps config d
            = (Some (if failures = [] then textVerifyFailed @ textNoDirosAddress
                     else textVerifyFailed @ Join failures textDetailSeparator), d)))"
proof -
  define runConfig where "runConfig = applyDirosURI deps config"
  define addresses where "addresses = collectDirosAddresses deps runConfig"
  define failures where "failures = concat (map (\<lambda>(i, address).
                      case fst (attemptAddress deps runConfig i address) of
                        Failed detail \<Rightarrow> [detail] | _ \<Rightarrow> [])
                    (enumerate 0 addresses))"
  define st0 where "st0 = \<lparr>errorDetails = [], sqlLog = []\<rparr>"
  have connect: "DirosDB_Connect deps config d =
     (if length addresses = 0 then (Some (textVerifyFailed @ textNoDirosAddress), d)
      else (case connectLoop deps runConfig 0 addresses st0 of
              (Some (db, timeout), st) \<Rightarrow> (None, d\<lparr>conn := Some db, pingTimeout := timeout\<rparr>)
            | (None, st) \<Rightarrow>
                if length (errorDetails st) = 0
                then (Some (textVerifyFailed @ textNoDirosAddress), d)
                else (Some (textVerifyFailed @ Join (errorDetails st) textDetailSeparator), d)))"
    by (simp add: DirosDB_Connect_def Let_def runConfig_def addresses_def st0_def)
  have attempts: "DirosDB_attempts deps config = snd (connectLoop deps runConfig 0 addresses st0)"
    by (simp add: DirosDB_attempts_def Let_def runConfig_def addresses_def st0_def)
  have scenario: "DirosDB_Connect deps config d = (None, d\<lparr>conn := Some db, pingTimeout := timeout\<rparr>)
            \<and> DirosDB_attempts deps config = \<lparr>errorDetails = [detail], sqlLog = log1 @ log2\<rparr>
            \<and> (\<exists>err. detail = first @ textOpenFailed @ err
                      \<or> detail = first @ textPingFailed @ err)
            \<and> (\<exists>host port.
                  parseHostPortWithDefault deps second defaultDirosPort = Some (host, port)
                  \<and> db = \<lparr>driverName = dirosDriverName,
                           dataSourceName =
                             getDSN deps (runConfig\<lparr>Host := host, Port := port,
                               User := fst (resolveDirosCredential runConfig 1),
                               Password := snd (resolveDirosCredential runConfig 1)\<rparr>)\<rparr>)"
    if h: "addresses = [first, second]
          \<and> attemptAddress deps runConfig 0 first = (Failed detail, log1)
          \<and> attemptAddress deps runConfig 1 second = (Connected db timeout, log2)"
    for first second detail log1 db timeout log2
  proof -
    have loop: "connectLoop deps runConfig 0 addresses st0
                  = (Some (db, timeout), \<lparr>errorDetails = [detail], sqlLog = log1 @ log2\<rparr>)"
      using h by (simp add: st0_def)
    have "DirosDB_Connect deps config d = (None, d\<lparr>conn := Some db, pingTimeout := timeout\<rparr>)"
      using h by (simp add: connect loop)
    moreover have "DirosDB_attempts deps config = \<lparr>errorDetails = [detail], sqlLog = log1 @ log2\<rparr>"
      by (simp add: attempts loop)
    moreover have "\<exists>err. detail = first @ textOpenFailed @ err
                      \<or> detail = first @ textPingFailed @ err"
      using h attemptAddress_Failed by blast
    moreover have "\<exists>host port.
                  parseHostPortWithDefault deps second defaultDirosPort = Some (host, port)
                  \<and> db = \<lparr>driverName = dirosDriverName,
                           dataSourceName =
                             getDSN deps (runConfig\<lparr>Host := host, Port := port,
                               User := fst (resolveDirosCredential runConfig 1),
                               Password := snd (resolveDirosCredential runConfig 1)\<rparr>)\<rparr>"
      using h attemptAddress_Connected [of deps runConfig 1 second db timeout log2] by blast
    ultimately show ?thesis by blast
  qed
  have error_iff: "(fst (DirosDB_Connect deps config d) \<noteq> None)
          = (\<forall>(i, address) \<in> set (enumerate 0 addresses).
               \<forall>db timeout. fst (attemptAddress deps runConfig i address) \<noteq> Connected db timeout)"
  proof (cases "addresses = []")
    case True
    then show ?thesis by (simp add: connect)
  next
    case False
    obtain r st where loop: "connectLoop deps runConfig 0 addresses st0 = (r, st)"
      by (cases "connectLoop deps runConfig 0 addresses st0")
    have "(fst (DirosDB_Connect deps config d) \<noteq> None) = (r = None)"
      using False loop by (cases r) (auto simp: connect)
    also have "\<dots> = (fst (connectLoop deps runConfig 0 addresses st0) = None)"
      using loop by simp
    finally show ?thesis
      by (simp only: connectLoop_none_or_some)
  qed
  have error_text: "DirosDB_Connect deps config d
            = (Some (if failures = [] then textVerifyFailed @ textNoDirosAddress
                     else textVerifyFailed @ Join failures textDetailSeparator), d)"
    if e: "fst (DirosDB_Connect deps config d) \<noteq> None"
  proof -
    from e error_iff have all: "\<forall>(i, address) \<in> set (enumerate 0 addresses).
               \<forall>db timeout. fst (attemptAddress deps runConfig i address) \<noteq> Connected db timeout"
      by simp
    from connectLoop_all_fail [OF all, of st0]
    have n: "fst (connectLoop deps runConfig 0 addresses st0) = None"
      and f: "errorDetails (snd (connectLoop deps runConfig 0 addresses st0)) = failures"
      by (simp_all add: failures_def st0_def)
    obtain st where loop: "connectLoop deps runConfig 0 addresses st0 = (None, st)"
      using n by (cases "connectLoop deps runConfig 0 addresses st0") auto
    with f have fs: "errorDetails st = failures" by simp
    show ?thesis
    proof (cases "addresses = []")
      case True
      then show ?thesis by (simp add: connect failures_def)
    next
      case False
      then show ?thesis using loop fs by (simp add: connect)
    qed
  qed
  show ?thesis
    unfolding Let_def
    using scenario error_iff error_text
    unfolding runConfig_def addresses_def failures_def
    by blast
qed


theorem DirosDB_Connect_fails_over_witness:
  "(let deps = \<lparr>parseHostPortWithDefault =
                  (\<lambda>s p. if s = [] then None else Some (takeWhile (\<lambda>c. c \<noteq> CHR '':'') s, p)),
                normalizeMySQLAddress = (\<lambda>h p. h @ '':'' @ fmtInt p),
                getConnectTimeoutSeconds = (\<lambda>c. 30),
                getConnectTimeout = (\<lambda>c. 30000000000),
                RegisterSSHNetwork = (\<lambda>c. Inl ''no tunnel''),
                urlParse = (\<lambda>u. None),
                sqlOpen = (\<lambda>i drv dsn. None),
                PingContext = (\<lambda>i db t. if i = 0 then Some ''connection refused'' else None)\<rparr>;
        config = \<lparr>Type = ''diros'', Host = [], Port = 0, User = ''root'', Password = ''pw'',
                  Database = ''demo'', UseSSH = False,
                  SSH = \<lparr>sshHost = [], sshPort = 0, sshUser = [], sshPassword = [],
                          sshKeyPath = []\<rparr>,
                  SavePassword = False, Driver = [], DSN = [], Timeout = 0, RedisDB = 0,
                  URI = [], Hosts = [''fe1'', ''fe2''], Topology = [], MySQLReplicaUser = [],
                  MySQLReplicaPassword = [], ReplicaSet = [], AuthSource = [],
                  ReadPreference = [], MongoSRV = False, MongoAuthMechanism = [],
                  MongoReplicaUser = [], MongoReplicaPassword = []\<rparr>;
        runConfig = applyDirosURI deps config;
        db2 = \<lparr>driverName = ''diros'',
               dataSourceName = ''root:pw@tcp(fe2:9030)/demo?charset=utf8mb4&parseTime=True&loc=Local&timeout=30s''\<rparr>
    in collectDirosAddresses deps runConfig = [''fe1:9030'', ''fe2:9030'']
       \<and> fst (attemptAddress deps runConfig 0 ''fe1:9030'')
           = Failed (''fe1:9030'' @ textPingFailed @ ''connection refused'')
       \<and> fst (attemptAddress deps runConfig 1 ''fe2:9030'') = Connected db2 30000000000
       \<and> DirosDB_Connect deps config \<lparr>conn = None, pingTimeout = 0\<rparr>
           = (None, \<lparr>conn = Some db2, pingTimeout = 30000000000\<rparr>)
       \<and> errorDetails (DirosDB_attempts deps config)
           = [''fe1:9030'' @ textPingFailed @ ''connection refused''])"
proof -
  let ?deps = "\<lparr>parseHostPortWithDefault =
                  (\<lambda>s p. if s = [] then None else Some (takeWhile (\<lambda>c. c \<noteq> CHR '':'') s, p)),
                normalizeMySQLAddress = (\<lambda>h p. h @ '':'' @ fmtInt p),
                getConnectTimeoutSeconds = (\<lambda>c. 30),
                getConnectTimeout = (\<lambda>c. 30000000000),
                RegisterSSHNetwork = (\<lambda>c. Inl ''no tunnel''),
                urlParse = (\<lambda>u. None),
                sqlOpen = (\<lambda>i drv dsn. None),
                PingContext = (\<lambda>i db t. if i = 0 then Some ''connection refused'' else None)\<rparr>"
  let ?config = "\<lparr>Type = ''diros'', Host = [], Port = 0, User = ''root'', Password = ''pw'',
                  Database = ''demo'', UseSSH = False,
                  SSH = \<lparr>sshHost = [], sshPort = 0, sshUser = [], sshPassword = [],
                          sshKeyPath = []\<rparr>,
                  SavePassword = False, Driver = [], DSN = [], Timeout = 0, RedisDB = 0,
                  URI = [], Hosts = [''fe1'', ''fe2''], Topology = [], MySQLReplicaUser = [],
                  MySQLReplicaPassword = [], ReplicaSet = [], AuthSource = [],
                  ReadPreference = [], MongoSRV = False, MongoAuthMechanism = [],
                  MongoReplicaUser = [], MongoReplicaPassword = []\<rparr>"
  let ?db2 = "\<lparr>driverName = ''diros'',
               dataSourceName = ''root:pw@tcp(fe2:9030)/demo?charset=utf8mb4&parseTime=True&loc=Local&timeout=30s''\<rparr>"
  let ?d = "\<lparr>conn = None, pingTimeout = 0\<rparr>"
  have rc: "applyDirosURI ?deps ?config = ?config"
    by (simp add: applyDirosURI_def eval_strings)
  have addrs: "collectDirosAddresses ?deps ?config = [''fe1:9030'', ''fe2:9030'']"
    by (simp add: collectDirosAddresses_def defaultDirosPort_def fmtInt_def fmtNat.simps
          char_of_eq_iff)
  obtain r1 log1 where a1: "attemptAddress ?deps ?config 0 ''fe1:9030'' = (r1, log1)"
    by (cases "attemptAddress ?deps ?config 0 ''fe1:9030''")
  have r1: "r1 = Failed (''fe1:9030'' @ textPingFailed @ ''connection refused'')"
    using a1
    by (simp add: attemptAddress_def resolveDirosCredential_def getDSN_def Let_def
          defaultDirosPort_def eval_strings split: prod.splits)
  obtain r2 log2 where a2: "attemptAddress ?deps ?config 1 ''fe2:9030'' = (r2, log2)"
    by (cases "attemptAddress ?deps ?config 1 ''fe2:9030''")
  have r2: "r2 = Connected ?db2 30000000000"
    using a2
    by (simp add: attemptAddress_def resolveDirosCredential_def getDSN_def Let_def
          defaultDirosPort_def dirosDriverName_def eval_strings fmtInt_def fmtNat.simps
          split: prod.splits)
  have hyp: "collectDirosAddresses ?deps (applyDirosURI ?deps ?config) = [''fe1:9030'', ''fe2:9030'']
      \<and> attemptAddress ?deps (applyDirosURI ?deps ?config) 0 ''fe1:9030''
          = (Failed (''fe1:9030'' @ textPingFailed @ ''connection refused''), log1)
      \<and> attemptAddress ?deps (applyDirosURI ?deps ?config) 1 ''fe2:9030''
          = (Connected ?db2 30000000000, log2)"
    unfolding rc using addrs a1 a2 r1 r2 by simp
  from DirosDB_Connect_fails_over [of ?deps ?config ?d, unfolded Let_def] hyp
  have res: "DirosDB_Connect ?deps ?config ?d
               = (None, ?d\<lparr>conn := Some ?db2, pingTimeout := 30000000000\<rparr>)
             \<and> DirosDB_attempts ?deps ?config
               = \<lparr>errorDetails = [''fe1:9030'' @ textPingFailed @ ''connection refused''],
                  sqlLog = log1 @ log2\<rparr>"
    by blast
  show ?thesis
    unfolding Let_def using hyp res by simp
qed

end
